theory Spec2Isabelle
  imports Complex_Main
begin

section \<open>JavaScript numbers\<close>

text \<open>
  A JavaScript number is an IEEE double. A finite double is modelled by the real number
  it stands for; overflow, subnormal numbers and the sign of zero are left out. The
  three special values are kept, because the metrics of \<open>script.js\<close> divide without a
  guard and the result of a division by zero is what several properties are about.

  There are two kinds of arithmetic. \<open>js_add\<close>, \<open>js_mul\<close> and \<open>js_div\<close> are exact on
  finite values: they are used where a quantity is carried along (energy, cost, payback,
  the totals), and what they give differs from the page's value by rounding error only.
  \<open>dbl_add\<close>, \<open>dbl_mul\<close> and \<open>dbl_div\<close> (section \<open>Rounding to the nearest double\<close>)
  round as the machine does; they are used in \<open>calculateMaxRecommendedPanels\<close> and in
  the sunshine averages, whose result is a floor or a rounding of the computed value, so
  that the last bit decides it.
\<close>

datatype jsnum = Num real | PosInf | NegInf | NaN

fun js_neg :: "jsnum \<Rightarrow> jsnum" where
  "js_neg (Num a) = Num (- a)"
| "js_neg PosInf = NegInf"
| "js_neg NegInf = PosInf"
| "js_neg NaN = NaN"

text \<open>\<open>a + b\<close>\<close>

fun js_add :: "jsnum \<Rightarrow> jsnum \<Rightarrow> jsnum" where
  "js_add NaN _ = NaN"
| "js_add _ NaN = NaN"
| "js_add (Num a) (Num b) = Num (a + b)"
| "js_add PosInf NegInf = NaN"
| "js_add NegInf PosInf = NaN"
| "js_add PosInf _ = PosInf"
| "js_add NegInf _ = NegInf"
| "js_add (Num a) b = b"

text \<open>\<open>a * b\<close>: an infinity times zero is NaN, otherwise the signs multiply.\<close>

fun js_sign_inf :: "real \<Rightarrow> jsnum" where
  "js_sign_inf a = (if a = 0 then NaN else if 0 < a then PosInf else NegInf)"

fun js_mul :: "jsnum \<Rightarrow> jsnum \<Rightarrow> jsnum" where
  "js_mul NaN _ = NaN"
| "js_mul _ NaN = NaN"
| "js_mul (Num a) (Num b) = Num (a * b)"
| "js_mul (Num a) PosInf = js_sign_inf a"
| "js_mul (Num a) NegInf = js_neg (js_sign_inf a)"
| "js_mul PosInf (Num b) = js_sign_inf b"
| "js_mul NegInf (Num b) = js_neg (js_sign_inf b)"
| "js_mul PosInf PosInf = PosInf"
| "js_mul NegInf NegInf = PosInf"
| "js_mul PosInf NegInf = NegInf"
| "js_mul NegInf PosInf = NegInf"

text \<open>
  \<open>a / b\<close>: a finite number over zero is an infinity of its sign, zero over zero is
  NaN, an infinity over an infinity is NaN. The zero of the model is the positive zero.
\<close>

fun js_div :: "jsnum \<Rightarrow> jsnum \<Rightarrow> jsnum" where
  "js_div NaN _ = NaN"
| "js_div _ NaN = NaN"
| "js_div (Num a) (Num b) = (if b = 0 then js_sign_inf a else Num (a / b))"
| "js_div (Num a) PosInf = Num 0"
| "js_div (Num a) NegInf = Num 0"
| "js_div PosInf (Num b) = (if 0 \<le> b then PosInf else NegInf)"
| "js_div NegInf (Num b) = (if 0 \<le> b then NegInf else PosInf)"
| "js_div PosInf _ = NaN"
| "js_div NegInf _ = NaN"

text \<open>\<open>a > b\<close>: false as soon as one side is NaN.\<close>

fun js_gt :: "jsnum \<Rightarrow> jsnum \<Rightarrow> bool" where
  "js_gt NaN _ = False"
| "js_gt _ NaN = False"
| "js_gt (Num a) (Num b) = (b < a)"
| "js_gt PosInf PosInf = False"
| "js_gt PosInf _ = True"
| "js_gt NegInf _ = False"
| "js_gt (Num a) NegInf = True"
| "js_gt (Num a) PosInf = False"

text \<open>\<open>Math.min(a, b)\<close>: NaN as soon as one argument is NaN.\<close>

fun js_min :: "jsnum \<Rightarrow> jsnum \<Rightarrow> jsnum" where
  "js_min NaN _ = NaN"
| "js_min _ NaN = NaN"
| "js_min a b = (if js_gt a b then b else a)"

text \<open>\<open>Math.round(a)\<close>: the nearest integer, a tie going up.\<close>

fun js_round :: "jsnum \<Rightarrow> jsnum" where
  "js_round (Num a) = Num (of_int \<lfloor>a + 1 / 2\<rfloor>)"
| "js_round a = a"

text \<open>\<open>Math.floor(a)\<close>\<close>

fun js_floor :: "jsnum \<Rightarrow> jsnum" where
  "js_floor (Num a) = Num (of_int \<lfloor>a\<rfloor>)"
| "js_floor a = a"

text \<open>
  The numeric value of the string \<open>a.toFixed(1)\<close>: one decimal, a tie going away
  from zero; \<open>NaN\<close> and the infinities print as \<open>"NaN"\<close>, \<open>"Infinity"\<close> and
  \<open>"-Infinity"\<close> and are kept as they are.
\<close>

fun js_toFixed1 :: "jsnum \<Rightarrow> jsnum" where
  "js_toFixed1 (Num a) =
     (if 0 \<le> a then Num (of_int \<lfloor>a * 10 + 1 / 2\<rfloor> / 10)
      else Num (- (of_int \<lfloor>(- a) * 10 + 1 / 2\<rfloor> / 10)))"
| "js_toFixed1 a = a"

text \<open>\<open>Math.abs(a)\<close>\<close>

fun js_abs :: "jsnum \<Rightarrow> jsnum" where
  "js_abs (Num a) = Num \<bar>a\<bar>"
| "js_abs NegInf = PosInf"
| "js_abs a = a"

text \<open>\<open>a < b\<close>\<close>

definition js_lt :: "jsnum \<Rightarrow> jsnum \<Rightarrow> bool" where
  "js_lt a b = js_gt b a"

text \<open>Truthiness of a number: \<open>0\<close> and \<open>NaN\<close> are falsy.\<close>

fun js_truthy :: "jsnum \<Rightarrow> bool" where
  "js_truthy (Num a) = (a \<noteq> 0)"
| "js_truthy NaN = False"
| "js_truthy _ = True"

fun is_finite :: "jsnum \<Rightarrow> bool" where
  "is_finite (Num a) = True"
| "is_finite _ = False"

fun num_val :: "jsnum \<Rightarrow> real" where
  "num_val (Num a) = a"
| "num_val _ = 0"

section \<open>Rounding to the nearest double\<close>

text \<open>
  \<open>fl x\<close> is the double nearest to the real \<open>x\<close>, a tie going to the even mantissa
  (binary64: 53 bits of mantissa; the exponent is not bounded here). \<open>binade a\<close> is the
  exponent \<open>e\<close> with \<open>2^e \<le> a < 2^(e+1)\<close>, read off the number of bits of the integer
  part of \<open>a\<close>, or of \<open>1 / a\<close> below 1; \<open>ulp a\<close> is the distance between the doubles of
  that binade.
\<close>

fun bitLength :: "nat \<Rightarrow> nat" where
  "bitLength n = (if n = 0 then 0 else Suc (bitLength (n div 2)))"

declare bitLength.simps [simp del]

definition pow2 :: "int \<Rightarrow> real" where
  "pow2 k = (if 0 \<le> k then 2 ^ nat k else 1 / 2 ^ nat (- k))"

definition binade :: "real \<Rightarrow> int" where
  "binade a =
     (if 1 \<le> a then int (bitLength (nat \<lfloor>a\<rfloor>)) - 1
      else - int (bitLength (nat (\<lceil>1 / a\<rceil> - 1))))"

definition roundHalfEven :: "real \<Rightarrow> int" where
  "roundHalfEven m =
     (if m - of_int \<lfloor>m\<rfloor> < 1 / 2 then \<lfloor>m\<rfloor>
      else if 1 / 2 < m - of_int \<lfloor>m\<rfloor> then \<lfloor>m\<rfloor> + 1
      else if even \<lfloor>m\<rfloor> then \<lfloor>m\<rfloor> else \<lfloor>m\<rfloor> + 1)"

definition ulp :: "real \<Rightarrow> real" where
  "ulp a = pow2 (binade a - 52)"

definition fl :: "real \<Rightarrow> real" where
  "fl x =
     (if x = 0 then 0
      else sgn x * (of_int (roundHalfEven (\<bar>x\<bar> / ulp \<bar>x\<bar>)) * ulp \<bar>x\<bar>))"

text \<open>
  A number as the machine holds it, and the three operations as the machine does them:
  the exact result of the operation on two doubles, rounded. A decimal literal such as
  \<open>0.7\<close> is the double nearest to it, so the operands are rounded as well (a double is
  its own nearest double).
\<close>

fun js_rnd :: "jsnum \<Rightarrow> jsnum" where
  "js_rnd (Num a) = Num (fl a)"
| "js_rnd a = a"

definition dbl_add :: "jsnum \<Rightarrow> jsnum \<Rightarrow> jsnum" where
  "dbl_add a b = js_rnd (js_add (js_rnd a) (js_rnd b))"

definition dbl_mul :: "jsnum \<Rightarrow> jsnum \<Rightarrow> jsnum" where
  "dbl_mul a b = js_rnd (js_mul (js_rnd a) (js_rnd b))"

definition dbl_div :: "jsnum \<Rightarrow> jsnum \<Rightarrow> jsnum" where
  "dbl_div a b = js_rnd (js_div (js_rnd a) (js_rnd b))"

section \<open>Zones and the metrics of a zone\<close>

text \<open>
  The object \<open>zoneData\<close> that \<open>onDrawCreated\<close> builds. \<open>zid\<close> is the number \<open>n\<close> of the
  identifier \<open>zone_n\<close>; \<open>layer\<close> is a reference to the Leaflet layer, which the mapping
  widget owns.
\<close>

datatype layer_type = Polygon | Rectangle | OtherLayer

record zone =
  zid :: nat
  layer :: nat
  ztype :: layer_type
  area :: jsnum
  panelCount :: jsnum
  panelWattage :: jsnum
  efficiency :: jsnum

text \<open>\<open>this.sunlightData\<close>, undefined until a location search has set it.\<close>

record sunlight =
  daily :: jsnum
  weekly :: jsnum
  monthly :: jsnum
  yearly :: jsnum

text \<open>\<open>calculatePanelCount(area)\<close>: the default of a new zone, whatever the area.\<close>

definition calculatePanelCount :: "jsnum \<Rightarrow> jsnum" where
  "calculatePanelCount a = Num 25"

text \<open>
  \<open>calculateMaxRecommendedPanels(area)\<close>: \<open>Math.floor((area * spacingFactor) / panelArea)\<close>,
  the product and the quotient as the machine computes them.
\<close>

definition calculateMaxRecommendedPanels :: "jsnum \<Rightarrow> jsnum" where
  "calculateMaxRecommendedPanels a =
     (let panelArea = Num 2; spacingFactor = Num (7 / 10)
      in js_floor (dbl_div (dbl_mul a spacingFactor) panelArea))"

text \<open>
  \<open>calculateEnergyOutput(zoneData)\<close>. The sunlight sample replaces the default of 4.2
  hours only when \<open>this.sunlightData && this.sunlightData.daily\<close> is truthy, and the
  performance ratio is \<open>zoneData.efficiency || 0.85\<close>.
\<close>

definition calculateEnergyOutput :: "sunlight option \<Rightarrow> zone \<Rightarrow> jsnum" where
  "calculateEnergyOutput sd z =
     (let systemSize = js_div (js_mul (panelCount z) (panelWattage z)) (Num 1000);
          peakSunHours =
            (case sd of
               None \<Rightarrow> Num (42 / 10)
             | Some d \<Rightarrow> if js_truthy (daily d) then daily d else Num (42 / 10));
          performanceRatio =
            (if js_truthy (efficiency z) then efficiency z else Num (85 / 100))
      in js_mul (js_mul (js_mul systemSize peakSunHours) (Num 365)) performanceRatio)"

text \<open>\<open>calculateEfficiencyScore(annualOutput, systemSize)\<close>\<close>

definition calculateEfficiencyScore :: "jsnum \<Rightarrow> jsnum \<Rightarrow> jsnum" where
  "calculateEfficiencyScore annualOutput systemSize =
     (let outputPerKW = js_div annualOutput systemSize;
          efficiencyScore = js_min (js_mul (js_div outputPerKW (Num 1200)) (Num 100)) (Num 100)
      in js_round efficiencyScore)"

text \<open>\<open>calculateMonthlyOutput(annualOutput)\<close>\<close>

definition calculateMonthlyOutput :: "jsnum \<Rightarrow> jsnum" where
  "calculateMonthlyOutput annualOutput = js_div annualOutput (Num 12)"

text \<open>
  The figures \<open>updateSelectedZoneStats\<close> and \<open>showZoneInfo\<close> print for one zone: the
  area, the system size, the output and the efficiency score. The score is computed with
  no test of the system size.
\<close>

record zone_stats =
  statArea :: jsnum
  statPower :: jsnum
  statOutput :: jsnum
  statEfficiency :: jsnum

definition zoneStats :: "sunlight option \<Rightarrow> zone \<Rightarrow> zone_stats" where
  "zoneStats sd z =
     (let energyOutput = calculateEnergyOutput sd z;
          systemSize = js_div (js_mul (panelCount z) (panelWattage z)) (Num 1000);
          efficiencyScore = calculateEfficiencyScore energyOutput systemSize
      in \<lparr>statArea = area z, statPower = systemSize, statOutput = energyOutput,
          statEfficiency = efficiencyScore\<rparr>)"

section \<open>Sunlight data\<close>

text \<open>
  The series \<open>data.daily.sunshine_duration\<close> of the weather service: numbers and
  \<open>null\<close> entries (\<open>None\<close>). \<open>processedHours\<close> is the \<open>map\<close> of \<open>fetchSunlightData\<close>.
\<close>

definition processedHours :: "jsnum option list \<Rightarrow> jsnum option list" where
  "processedHours sunlightHours =
     map (\<lambda>seconds.
            case seconds of
              None \<Rightarrow> None
            | Some v \<Rightarrow> if js_gt v (Num 24) then Some (dbl_div v (Num 3600)) else Some v)
         sunlightHours"

text \<open>
  \<open>calculateDailyAverage(sunlightHours)\<close>: \<open>filter\<close>, \<open>reduce\<close> from 0, one decimal. The
  sum, the mean and the scaling by 10 are rounded as the machine rounds them:
  \<open>Math.round\<close> sees the computed mean, not the exact one.
\<close>

fun validHours :: "jsnum option list \<Rightarrow> jsnum list" where
  "validHours [] = []"
| "validHours (None # hs) = validHours hs"
| "validHours (Some h # hs) = h # validHours hs"

definition calculateDailyAverage :: "jsnum option list \<Rightarrow> jsnum" where
  "calculateDailyAverage sunlightHours =
     (let valid = validHours sunlightHours;
          average = dbl_div (foldl dbl_add (Num 0) valid) (Num (real (length valid)))
      in dbl_div (js_round (dbl_mul average (Num 10))) (Num 10))"

definition calculateWeeklyTotal :: "jsnum option list \<Rightarrow> jsnum" where
  "calculateWeeklyTotal sunlightHours =
     (let dailyAvg = calculateDailyAverage sunlightHours
      in dbl_div (js_round (dbl_mul (dbl_mul dailyAvg (Num 7)) (Num 10))) (Num 10))"

definition calculateMonthlyAverage :: "jsnum option list \<Rightarrow> jsnum" where
  "calculateMonthlyAverage sunlightHours =
     (let dailyAvg = calculateDailyAverage sunlightHours
      in dbl_div (js_round (dbl_mul (dbl_mul dailyAvg (Num 30)) (Num 10))) (Num 10))"

definition calculateYearlyEstimate :: "jsnum option list \<Rightarrow> jsnum" where
  "calculateYearlyEstimate sunlightHours =
     (let dailyAvg = calculateDailyAverage sunlightHours
      in js_round (dbl_mul dailyAvg (Num 365)))"

text \<open>\<open>getFallbackSunlightData(lat)\<close>\<close>

definition getFallbackSunlightData :: "jsnum \<Rightarrow> sunlight" where
  "getFallbackSunlightData lat =
     (let dailyAverage =
            (if js_lt (js_abs lat) (Num (235 / 10)) then Num (65 / 10)
             else if js_lt (js_abs lat) (Num 40) then Num (58 / 10)
             else if js_lt (js_abs lat) (Num 60) then Num (45 / 10)
             else Num (32 / 10))
      in \<lparr>daily = dailyAverage,
          weekly = dbl_div (js_round (dbl_mul (dbl_mul dailyAverage (Num 7)) (Num 10))) (Num 10),
          monthly = dbl_div (js_round (dbl_mul (dbl_mul dailyAverage (Num 30)) (Num 10))) (Num 10),
          yearly = js_round (dbl_mul dailyAverage (Num 365))\<rparr>)"

text \<open>
  What the request of \<open>fetchSunlightData\<close> came back with: a failure (the \<open>catch\<close>
  branch), an answer without the series, or the series.
\<close>

datatype weather_response = RequestFailed | NoSeries | Series "jsnum option list"

fun fetchSunlightData :: "jsnum \<Rightarrow> weather_response \<Rightarrow> sunlight option \<Rightarrow> sunlight option" where
  "fetchSunlightData lat RequestFailed old = Some (getFallbackSunlightData lat)"
| "fetchSunlightData lat NoSeries old = old"
| "fetchSunlightData lat (Series sunlightHours) old =
     (let hours = processedHours sunlightHours
      in Some \<lparr>daily = calculateDailyAverage hours,
               weekly = calculateWeeklyTotal hours,
               monthly = calculateMonthlyAverage hours,
               yearly = calculateYearlyEstimate hours\<rparr>)"

section \<open>Optimization results\<close>

text \<open>
  The payback period is the expression \<open>systemCost / (monthlySavings * 12)\<close>, written
  out in \<open>generateOptimizationResults\<close> and again in \<open>optimizeAllZones\<close>, with no test of
  the divisor in either place.
\<close>

definition paybackPeriod :: "jsnum \<Rightarrow> jsnum \<Rightarrow> jsnum" where
  "paybackPeriod systemCost monthlySavings = js_div systemCost (js_mul monthlySavings (Num 12))"

record optimization_results =
  optPanelCount :: jsnum
  optSystemSize :: jsnum
  optAnnualProduction :: jsnum
  optMonthlySavings :: jsnum
  optSystemCost :: jsnum
  optPaybackPeriod :: jsnum
  optCo2Reduction :: "jsnum option"
  optZones :: "nat option"

text \<open>
  \<open>generateOptimizationResults()\<close>: \<open>sunHours\<close> is \<open>this.roofData.sunHours\<close> (\<open>None\<close> while
  \<open>roofData\<close> is null: the function returns and \<open>optimizationResults\<close> keeps its value),
  \<open>panelCount\<close> the parsed value of the input field.
\<close>

definition generateOptimizationResults ::
  "jsnum option \<Rightarrow> jsnum \<Rightarrow> optimization_results option \<Rightarrow> optimization_results option" where
  "generateOptimizationResults sunHours pc old =
     (case sunHours of
        None \<Rightarrow> old
      | Some h \<Rightarrow>
          (let panelWattage = Num 400;
               systemSize = js_div (js_mul pc panelWattage) (Num 1000);
               annualProduction = js_mul (js_mul (js_mul systemSize h) (Num 365)) (Num (85 / 100));
               monthlySavings = js_mul (js_div annualProduction (Num 12)) (Num (12 / 100));
               systemCost = js_mul systemSize (Num 3000);
               payback = paybackPeriod systemCost monthlySavings
           in Some \<lparr>optPanelCount = pc,
                    optSystemSize = js_toFixed1 systemSize,
                    optAnnualProduction = js_round annualProduction,
                    optMonthlySavings = js_round monthlySavings,
                    optSystemCost = js_round systemCost,
                    optPaybackPeriod = js_toFixed1 payback,
                    optCo2Reduction =
                      Some (js_round (js_mul (js_mul annualProduction (Num (4 / 10000)))
                                             (Num (220462 / 100)))),
                    optZones = None\<rparr>))"

text \<open>
  \<open>optimizeAllZones()\<close> over the zones of the store. With no zone it shows a message and
  returns. Otherwise the first round of its \<open>forEach\<close> calls
  \<open>this.calculateMonthlySavings\<close>, a method the class does not have: the call throws a
  \<open>TypeError\<close>, nothing is stored in \<open>optimizationResults\<close>, and the payback expression
  further down is not reached.
\<close>

datatype js_error = TypeError

definition optimizeAllZones ::
  "zone list \<Rightarrow> optimization_results option \<Rightarrow> js_error + optimization_results option" where
  "optimizeAllZones zs old = (if length zs = 0 then Inr old else Inl TypeError)"

section \<open>The application state\<close>

text \<open>
  A Leaflet layer: the class it is an instance of and its coordinates (\<open>getLatLngs()\<close>),
  of a type \<open>'g\<close> the application never looks into. The mapping widget (Leaflet and
  Leaflet.draw) is not part of \<open>script.js\<close>; what the script calls of it is the record
  \<open>leaflet\<close>: the geodesic area of a layer's ring, the GeoJSON form of a layer's
  coordinates, and the coordinates of the layer built back from that form.
\<close>

record 'g layer_obj =
  kind :: layer_type
  latLngs :: 'g

record ('g, 'j) leaflet =
  geodesicArea :: "'g \<Rightarrow> jsnum"
  toGeoJSON :: "'g \<Rightarrow> 'j"
  geoJSONLatLngs :: "'j \<Rightarrow> 'g"

text \<open>
  The fields of the \<open>SolarVisionAI\<close> object that the zone operations read and write.
  Zone objects and layers are shared by reference (\<open>selectedZone\<close>,
  \<open>currentEditingZone\<close> and the entries of \<open>drawingZones\<close> may be one object), so they
  live in two stores, \<open>zoneObj\<close> and \<open>layerObj\<close>, and the fields hold references.
  \<open>currentEditHandler\<close> holds the layer its edit handler was made for. The page (styles,
  texts, the log) is left out; what a function prints that a property needs is returned.
\<close>

record ('g, 'j) app =
  drawingZones :: "nat list"
  zoneCounter :: nat
  selectedZone :: "nat option"
  zoneObj :: "nat \<Rightarrow> zone"
  layerObj :: "nat \<Rightarrow> 'g layer_obj"
  drawnItems :: "nat list"
  originalGeometry :: "'j option"
  currentEditingZone :: "nat option"
  currentEditHandler :: "nat option"
  sunlightData :: "sunlight option"

text \<open>\<open>calculateArea(layer)\<close>\<close>

definition calculateArea :: "('g, 'j) leaflet \<Rightarrow> 'g layer_obj \<Rightarrow> jsnum" where
  "calculateArea lf lay =
     (if kind lay = Polygon \<or> kind lay = Rectangle then geodesicArea lf (latLngs lay)
      else Num 0)"

text \<open>
  The totals \<open>updateZoneAnalysis\<close> hands to \<open>showZoneAnalysis\<close>, and the values
  \<open>hideZoneAnalysis\<close> writes into the same places of the page when there is no zone.
\<close>

record totals =
  zones :: nat
  totalArea :: jsnum
  totalPanels :: jsnum
  totalPower :: jsnum
  totalAnnualOutput :: jsnum
  overallEfficiency :: jsnum

definition hideZoneAnalysis :: totals where
  "hideZoneAnalysis =
     \<lparr>zones = 0, totalArea = Num 0, totalPanels = Num 0, totalPower = Num 0,
      totalAnnualOutput = Num 0, overallEfficiency = Num 0\<rparr>"

text \<open>The body of the \<open>forEach\<close> of \<open>updateZoneAnalysis\<close>, on the four running totals.\<close>

definition analysisStep ::
  "sunlight option \<Rightarrow> zone \<Rightarrow> jsnum \<times> jsnum \<times> jsnum \<times> jsnum \<Rightarrow> jsnum \<times> jsnum \<times> jsnum \<times> jsnum" where
  "analysisStep sd z acc =
     (case acc of (tArea, tPanels, tPower, tOutput) \<Rightarrow>
        (js_add tArea (area z),
         js_add tPanels (panelCount z),
         js_add tPower (js_div (js_mul (panelCount z) (panelWattage z)) (Num 1000)),
         js_add tOutput (calculateEnergyOutput sd z)))"

definition zoneTotals :: "sunlight option \<Rightarrow> zone list \<Rightarrow> totals" where
  "zoneTotals sd zs =
     (if length zs = 0 then hideZoneAnalysis
      else
        (case fold (analysisStep sd) zs (Num 0, Num 0, Num 0, Num 0) of
           (tArea, tPanels, tPower, tOutput) \<Rightarrow>
             \<lparr>zones = length zs, totalArea = tArea, totalPanels = tPanels, totalPower = tPower,
              totalAnnualOutput = tOutput,
              overallEfficiency =
                (if js_gt tPower (Num 0) then calculateEfficiencyScore tOutput tPower
                 else Num 0)\<rparr>))"

text \<open>\<open>updateZoneAnalysis()\<close>: the totals it puts on the page.\<close>

definition updateZoneAnalysis :: "('g, 'j) app \<Rightarrow> totals" where
  "updateZoneAnalysis s = zoneTotals (sunlightData s) (map (zoneObj s) (drawingZones s))"

text \<open>\<open>updateSelectedZoneStats()\<close>: nothing without a selected zone.\<close>

definition updateSelectedZoneStats :: "('g, 'j) app \<Rightarrow> zone_stats option" where
  "updateSelectedZoneStats s =
     (case selectedZone s of
        None \<Rightarrow> None
      | Some r \<Rightarrow> Some (zoneStats (sunlightData s) (zoneObj s r)))"

section \<open>Creating, selecting and deleting zones\<close>

text \<open>
  \<open>onDrawCreated(e)\<close> for the event's layer and layer type. The new zone object gets the
  reference \<open>zoneCounter\<close> (after the increment), which no older object has.
\<close>

definition onDrawCreated ::
  "('g, 'j) leaflet \<Rightarrow> nat \<Rightarrow> layer_type \<Rightarrow> ('g, 'j) app \<Rightarrow> ('g, 'j) app" where
  "onDrawCreated lf l ty s =
     (let n = zoneCounter s + 1;
          a = calculateArea lf (layerObj s l);
          zoneData = \<lparr>zid = n, layer = l, ztype = ty, area = a, panelCount = Num 25,
                      panelWattage = Num 400, efficiency = Num (85 / 100)\<rparr>
      in s\<lparr>zoneCounter := n,
           zoneObj := (zoneObj s)(n := zoneData),
           drawingZones := drawingZones s @ [n],
           drawnItems := drawnItems s @ [l]\<rparr>)"

text \<open>
  The callback \<open>onDrawCreated\<close> leaves with \<open>setTimeout(..., 500)\<close>: it selects the zone
  just made.
\<close>

definition autoSelect :: "nat \<Rightarrow> ('g, 'j) app \<Rightarrow> ('g, 'j) app" where
  "autoSelect r s = s\<lparr>selectedZone := Some r\<rparr>"

text \<open>
  A zone drawn and then selected by its timer, with no other event in between (the half
  second of the timer is not modelled).
\<close>

definition createZone ::
  "('g, 'j) leaflet \<Rightarrow> nat \<Rightarrow> layer_type \<Rightarrow> ('g, 'j) app \<Rightarrow> ('g, 'j) app" where
  "createZone lf l ty s =
     (let s' = onDrawCreated lf l ty s in autoSelect (zoneCounter s') s')"

text \<open>\<open>selectZone(zoneData)\<close>, \<open>None\<close> for \<open>null\<close>.\<close>

definition selectZone :: "nat option \<Rightarrow> ('g, 'j) app \<Rightarrow> ('g, 'j) app" where
  "selectZone zoneData s = s\<lparr>selectedZone := zoneData\<rparr>"

text \<open>\<open>Array.prototype.findIndex\<close>, with \<open>None\<close> for \<open>-1\<close>.\<close>

fun findIndex :: "('a \<Rightarrow> bool) \<Rightarrow> 'a list \<Rightarrow> nat option" where
  "findIndex P [] = None"
| "findIndex P (x # xs) =
     (if P x then Some 0 else (case findIndex P xs of None \<Rightarrow> None | Some i \<Rightarrow> Some (Suc i)))"

text \<open>\<open>deleteZone(zoneId)\<close>\<close>

definition deleteZone :: "nat \<Rightarrow> ('g, 'j) app \<Rightarrow> ('g, 'j) app" where
  "deleteZone zoneId s =
     (case findIndex (\<lambda>r. zid (zoneObj s r) = zoneId) (drawingZones s) of
        None \<Rightarrow> s
      | Some zoneIndex \<Rightarrow>
          (let zoneData = drawingZones s ! zoneIndex;
               s1 = s\<lparr>drawnItems := removeAll (layer (zoneObj s zoneData)) (drawnItems s),
                      drawingZones := take zoneIndex (drawingZones s)
                                        @ drop (Suc zoneIndex) (drawingZones s)\<rparr>;
               s2 = (case selectedZone s1 of
                       None \<Rightarrow> s1
                     | Some r \<Rightarrow>
                         if zid (zoneObj s1 r) = zoneId then s1\<lparr>selectedZone := None\<rparr> else s1)
           in if length (drawingZones s2) > 0 \<and> selectedZone s2 = None
              then selectZone (Some (hd (drawingZones s2))) s2
              else s2))"

text \<open>
  \<open>onDrawDeleted(e)\<close> for the layers of the event (the delete tool of the drawing
  toolbar): each layer's zones leave \<open>drawingZones\<close>, and nothing else is written.
\<close>

definition onDrawDeleted :: "nat list \<Rightarrow> ('g, 'j) app \<Rightarrow> ('g, 'j) app" where
  "onDrawDeleted ls s =
     fold (\<lambda>l s. s\<lparr>drawingZones := filter (\<lambda>r. layer (zoneObj s r) \<noteq> l) (drawingZones s)\<rparr>)
          ls s"

section \<open>Editing a zone\<close>

text \<open>
  The mapping widget moving the vertices of a layer (a drag in edit mode), and
  \<open>layer.setLatLngs\<close>.
\<close>

definition setLatLngs :: "nat \<Rightarrow> 'g \<Rightarrow> ('g, 'j) app \<Rightarrow> ('g, 'j) app" where
  "setLatLngs l g s = s\<lparr>layerObj := (layerObj s)(l := (layerObj s l)\<lparr>latLngs := g\<rparr>)\<rparr>"

text \<open>\<open>onDrawEdited(e)\<close> for the layers of the event.\<close>

definition onDrawEdited :: "('g, 'j) leaflet \<Rightarrow> nat list \<Rightarrow> ('g, 'j) app \<Rightarrow> ('g, 'j) app" where
  "onDrawEdited lf ls s =
     fold (\<lambda>l s.
             case find (\<lambda>r. layer (zoneObj s r) = l) (drawingZones s) of
               None \<Rightarrow> s
             | Some r \<Rightarrow>
                 (let a = calculateArea lf (layerObj s l)
                  in s\<lparr>zoneObj := (zoneObj s)
                         (r := (zoneObj s r)\<lparr>area := a, panelCount := calculatePanelCount a\<rparr>)\<rparr>))
          ls s"

text \<open>\<open>editZone(zoneId)\<close>\<close>

definition editZone :: "('g, 'j) leaflet \<Rightarrow> nat \<Rightarrow> ('g, 'j) app \<Rightarrow> ('g, 'j) app" where
  "editZone lf zoneId s =
     (case find (\<lambda>r. zid (zoneObj s r) = zoneId) (drawingZones s) of
        None \<Rightarrow> s
      | Some r \<Rightarrow>
          (let l = layer (zoneObj s r)
           in s\<lparr>originalGeometry := Some (toGeoJSON lf (latLngs (layerObj s l))),
                currentEditingZone := Some r,
                currentEditHandler := Some l\<rparr>))"

text \<open>\<open>hideEditActions()\<close>\<close>

definition hideEditActions :: "('g, 'j) app \<Rightarrow> ('g, 'j) app" where
  "hideEditActions s = s\<lparr>currentEditingZone := None, originalGeometry := None\<rparr>"

text \<open>\<open>cancelZoneEdit()\<close>\<close>

definition cancelZoneEdit :: "('g, 'j) leaflet \<Rightarrow> ('g, 'j) app \<Rightarrow> ('g, 'j) app" where
  "cancelZoneEdit lf s =
     (case (currentEditHandler s, currentEditingZone s, originalGeometry s) of
        (Some h, Some r, Some j) \<Rightarrow>
          (let l = layer (zoneObj s r);
               s1 = s\<lparr>currentEditHandler := None\<rparr>;
               s2 = setLatLngs l (geoJSONLatLngs lf j) s1;
               s3 = s2\<lparr>zoneObj := (zoneObj s2)
                        (r := (zoneObj s2 r)\<lparr>area := calculateArea lf (layerObj s2 l)\<rparr>)\<rparr>;
               s4 = s3\<lparr>drawnItems := removeAll l (drawnItems s3) @ [l]\<rparr>
           in hideEditActions s4)
      | _ \<Rightarrow> s)"

section \<open>The panel count slider\<close>

text \<open>
  The \<open>input\<close> listener of the slider \<open>zonePanelCount\<close>, for the parsed value of the
  slider. Besides the new state it gives what the listener shows: whether the text
  carries the warning, the recommended maximum, and the figures of
  \<open>updateSelectedZoneStats\<close> and \<open>updateZoneAnalysis\<close>.
\<close>

record slider_view =
  warning :: bool
  maxRecommended :: jsnum
  shownStats :: "zone_stats option"
  shownTotals :: totals

definition zonePanelCountInput ::
  "jsnum \<Rightarrow> ('g, 'j) app \<Rightarrow> ('g, 'j) app \<times> slider_view option" where
  "zonePanelCountInput pc s =
     (case selectedZone s of
        None \<Rightarrow> (s, None)
      | Some r \<Rightarrow>
          (let maxRec = calculateMaxRecommendedPanels (area (zoneObj s r));
               s' = s\<lparr>zoneObj := (zoneObj s)(r := (zoneObj s r)\<lparr>panelCount := pc\<rparr>)\<rparr>
           in (s', Some \<lparr>warning = js_gt pc maxRec, maxRecommended = maxRec,
                         shownStats = updateSelectedZoneStats s',
                         shownTotals = updateZoneAnalysis s'\<rparr>)))"

section \<open>The state of a new page\<close>

text \<open>
  The constructor's state over the layers \<open>ls\<close> the mapping widget will hand out. No
  reference points into \<open>zoneObj\<close> yet; its entries are a placeholder.
\<close>

definition noZone :: zone where
  "noZone = \<lparr>zid = 0, layer = 0, ztype = OtherLayer, area = Num 0, panelCount = Num 0,
             panelWattage = Num 0, efficiency = Num 0\<rparr>"

definition newApp :: "(nat \<Rightarrow> 'g layer_obj) \<Rightarrow> ('g, 'j) app" where
  "newApp ls =
     \<lparr>drawingZones = [], zoneCounter = 0, selectedZone = None, zoneObj = (\<lambda>r. noZone),
      layerObj = ls, drawnItems = [], originalGeometry = None, currentEditingZone = None,
      currentEditHandler = None, sunlightData = None\<rparr>"

section \<open>Sequences of creations and deletions\<close>

text \<open>
  The two operations on the store that the page's own buttons reach: a zone drawn on a
  layer, and \<open>deleteZone\<close> for an identifier.
\<close>

datatype zone_event = DrawZone nat layer_type | DeleteZone nat

fun zoneEvent :: "('g, 'j) leaflet \<Rightarrow> zone_event \<Rightarrow> ('g, 'j) app \<Rightarrow> ('g, 'j) app" where
  "zoneEvent lf (DrawZone l ty) s = createZone lf l ty s"
| "zoneEvent lf (DeleteZone i) s = deleteZone i s"

text \<open>
  What these two operations keep: the zones of the store have distinct identifiers, no
  reference or identifier is above the counter, and the selection is a zone of the store,
  or none when the store is empty.
\<close>

definition selectionInvariant :: "('g, 'j) app \<Rightarrow> bool" where
  "selectionInvariant s =
     (distinct (map (\<lambda>r. zid (zoneObj s r)) (drawingZones s))
      \<and> list_all (\<lambda>r. r \<le> zoneCounter s \<and> zid (zoneObj s r) \<le> zoneCounter s) (drawingZones s)
      \<and> (case selectedZone s of
            None \<Rightarrow> drawingZones s = []
          | Some r \<Rightarrow> r \<in> set (drawingZones s)))"

section \<open>The formulas of the specification\<close>

text \<open>
  Zones whose four numbers are finite, and a sunlight sample (if any) whose daily hours
  are not an infinity: what the page holds after any number of draws, edits and slider
  moves with finite areas and counts.
\<close>

definition finiteZone :: "zone \<Rightarrow> bool" where
  "finiteZone z =
     (is_finite (area z) \<and> is_finite (panelCount z) \<and> is_finite (panelWattage z)
      \<and> is_finite (efficiency z))"

definition finiteSample :: "sunlight option \<Rightarrow> bool" where
  "finiteSample sd = (case sd of None \<Rightarrow> True | Some d \<Rightarrow> daily d \<noteq> PosInf \<and> daily d \<noteq> NegInf)"

text \<open>The system size of a zone with finite numbers, in kW.\<close>

definition systemSizeKW :: "zone \<Rightarrow> real" where
  "systemSizeKW z = num_val (panelCount z) * num_val (panelWattage z) / 1000"


text \<open>
  \<open>annualEnergyOutputKWh(zone, irradiance)\<close> as the specification writes it: the system
  size times the sample's daily hours times 365 times the zone's performance ratio.
\<close>

definition annualEnergyOutputKWh_spec :: "zone \<Rightarrow> jsnum \<Rightarrow> jsnum" where
  "annualEnergyOutputKWh_spec z dailyHours =
     js_mul (js_mul (js_mul (js_div (js_mul (panelCount z) (panelWattage z)) (Num 1000)) dailyHours)
               (Num 365)) (efficiency z)"

section \<open>Sample data\<close>

text \<open>
  A mapping widget whose coordinates are a number, the area itself, and whose GeoJSON
  form gives the coordinates back; three layers of 100, 200 and 140 square metres; a
  zone of 400 W panels with the default ratio.
\<close>

definition demoLeaflet :: "(real, real) leaflet" where
  "demoLeaflet = \<lparr>geodesicArea = Num, toGeoJSON = (\<lambda>g. g), geoJSONLatLngs = (\<lambda>j. j)\<rparr>"

definition demoLayers :: "nat \<Rightarrow> real layer_obj" where
  "demoLayers l =
     \<lparr>kind = Polygon, latLngs = (if l = 1 then 100 else if l = 2 then 200 else 140)\<rparr>"

definition demoZone :: "real \<Rightarrow> real \<Rightarrow> zone" where
  "demoZone a n =
     \<lparr>zid = 1, layer = 1, ztype = Polygon, area = Num a, panelCount = Num n,
      panelWattage = Num 400, efficiency = Num (85 / 100)\<rparr>"

text \<open>
  A mapping widget whose GeoJSON form keeps six decimals of the coordinates, and a layer
  of 200.0000004 square metres.
\<close>

definition sixDecimalLeaflet :: "(real, real) leaflet" where
  "sixDecimalLeaflet =
     \<lparr>geodesicArea = Num,
      toGeoJSON = (\<lambda>g. of_int \<lfloor>g * 1000000 + 1 / 2\<rfloor> / 1000000),
      geoJSONLatLngs = (\<lambda>j. j)\<rparr>"

definition fineLayers :: "nat \<Rightarrow> real layer_obj" where
  "fineLayers l = \<lparr>kind = Polygon, latLngs = 2000000004 / 10000000\<rparr>"

text \<open>The page after two zones were drawn on the layers of 100 and 200 square metres.\<close>

definition demoTwoZones :: "(real, real) app" where
  "demoTwoZones =
     createZone demoLeaflet 2 Polygon (createZone demoLeaflet 1 Polygon (newApp demoLayers))"

section \<open>Results\<close>

lemmas demo_defs = demoLeaflet_def demoLayers_def demoZone_def

lemmas metric_defs = calculateEfficiencyScore_def zoneStats_def calculateEnergyOutput_def
  zoneTotals_def analysisStep_def hideZoneAnalysis_def Let_def

lemmas dbl_defs = dbl_add_def dbl_mul_def dbl_div_def

lemmas fl_eval = fl_def ulp_def binade_def roundHalfEven_def pow2_def bitLength.simps

lemmas state_defs = zonePanelCountInput_def createZone_def newApp_def onDrawCreated_def
  autoSelect_def calculateArea_def updateSelectedZoneStats_def updateZoneAnalysis_def

lemmas edit_defs = editZone_def cancelZoneEdit_def hideEditActions_def setLatLngs_def
  onDrawEdited_def onDrawDeleted_def deleteZone_def selectZone_def

subsection \<open>The rounding\<close>

lemma bitLength_pos: "0 < n \<Longrightarrow> 0 < bitLength n"
  by (simp add: bitLength.simps [of n])

lemma bitLength_bounds:
  "0 < n \<Longrightarrow> 2 ^ (bitLength n - 1) \<le> n \<and> n < 2 ^ bitLength n"
proof (induction n rule: bitLength.induct)
  case (1 n)
  show ?case
  proof (cases "n div 2 = 0")
    case True
    with "1.prems" have "n = 1"
      by (simp add: div_eq_0_iff) 
    then show ?thesis
      by (simp add: bitLength.simps)
  next
    case False
    then have pos: "0 < n div 2" and b: "bitLength n = Suc (bitLength (n div 2))"
      using "1.prems" by (simp_all add: bitLength.simps [of n])
    from "1.IH" [OF _ pos] "1.prems"
    have ih: "2 ^ (bitLength (n div 2) - 1) \<le> n div 2" "n div 2 < 2 ^ bitLength (n div 2)"
      by simp_all
    have p: "0 < bitLength (n div 2)"
      using pos by (rule bitLength_pos)
    then have e: "(2::nat) ^ bitLength (n div 2) = 2 * 2 ^ (bitLength (n div 2) - 1)"
      by (cases "bitLength (n div 2)") simp_all
    have "2 * 2 ^ (bitLength (n div 2) - 1) \<le> n"
      using ih(1) by linarith
    moreover have "n < 2 * 2 ^ bitLength (n div 2)"
      using ih(2) by linarith
    ultimately show ?thesis
      by (simp add: b e)
  qed
qed

lemma bitLength_bounds_real:
  assumes "0 < n"
  shows "(2::real) ^ (bitLength n - 1) \<le> real n" and "real n + 1 \<le> 2 ^ bitLength n"
proof -
  from bitLength_bounds [OF assms]
  have a: "2 ^ (bitLength n - 1) \<le> n" and b: "Suc n \<le> 2 ^ bitLength n"
    by simp_all
  from a have "real (2 ^ (bitLength n - 1)) \<le> real n"
    by (rule iffD2 [OF of_nat_le_iff])
  then show "(2::real) ^ (bitLength n - 1) \<le> real n"
    by simp
  from b have "real (Suc n) \<le> real (2 ^ bitLength n)"
    by (rule iffD2 [OF of_nat_le_iff])
  then show "real n + 1 \<le> 2 ^ bitLength n"
    by simp
qed

lemma pow2_powi: "pow2 k = 2 powi k"
  by (simp add: pow2_def power_int_def power_one_over inverse_eq_divide)

text \<open>\<open>binade a\<close> is the exponent of the power of two at or below \<open>a\<close>.\<close>

lemma binade_bounds:
  assumes "0 < a"
  shows "pow2 (binade a) \<le> a \<and> a < pow2 (binade a + 1)"
proof (cases "1 \<le> a")
  case True
  define n where "n = nat \<lfloor>a\<rfloor>"
  have fa: "1 \<le> \<lfloor>a\<rfloor>"
    using True by linarith
  have n: "0 < n" "real n \<le> a" "a < real n + 1"
  proof -
    show "0 < n" using fa by (simp add: n_def)
    have "real n = of_int \<lfloor>a\<rfloor>" using fa by (simp add: n_def)
    then show "real n \<le> a" "a < real n + 1" by linarith+
  qed
  have bl: "0 < bitLength n"
    using n(1) by (rule bitLength_pos)
  have b: "binade a = int (bitLength n - 1)" "binade a + 1 = int (bitLength n)"
    using True bl by (simp_all add: binade_def n_def)
  have p: "pow2 (binade a) = 2 ^ (bitLength n - 1)" "pow2 (binade a + 1) = 2 ^ bitLength n"
    unfolding pow2_powi by (subst b, rule power_int_of_nat)+
  show ?thesis
    using bitLength_bounds_real [OF n(1)] n unfolding p by linarith
next
  case False
  define y where "y = 1 / a"
  define n where "n = nat (\<lceil>y\<rceil> - 1)"
  have y: "1 < y"
    using assms False by (simp add: y_def)
  then have cy: "2 \<le> \<lceil>y\<rceil>"
    by linarith
  have n: "0 < n" "real n < y" "y \<le> real n + 1"
  proof -
    show "0 < n" using cy by (simp add: n_def)
    have "real n = of_int \<lceil>y\<rceil> - 1" using cy by (simp add: n_def)
    then show "real n < y" "y \<le> real n + 1" by linarith+
  qed
  have bl: "0 < bitLength n"
    using n(1) by (rule bitLength_pos)
  have b: "binade a = - int (bitLength n)" "binade a + 1 = - int (bitLength n - 1)"
    using False bl by (simp_all add: binade_def n_def y_def)
  have p: "(2::real) powi (- int k) = 1 / 2 ^ k" for k
    by (simp add: power_int_minus field_simps)
  have "y \<le> 2 ^ bitLength n"
    using n bitLength_bounds_real [OF n(1)] by linarith
  then have lo: "1 / 2 ^ bitLength n \<le> a"
    using assms by (simp add: y_def field_simps)
  have "2 ^ (bitLength n - 1) < y"
    using n bitLength_bounds_real [OF n(1)] by linarith
  then have hi: "a < 1 / 2 ^ (bitLength n - 1)"
    using assms by (simp add: y_def field_simps)
  have q: "pow2 (binade a) = 1 / 2 ^ bitLength n"
    "pow2 (binade a + 1) = 1 / 2 ^ (bitLength n - 1)"
    unfolding pow2_powi by (subst b, rule p)+
  show ?thesis
    unfolding q using lo hi by simp
qed

lemma roundHalfEven_near: "\<bar>of_int (roundHalfEven m) - m\<bar> \<le> 1 / 2"
  unfolding roundHalfEven_def by (auto; linarith)

lemma ulp_bounds:
  assumes "0 < a"
  shows "0 < ulp a" and "ulp a \<le> a / 2 ^ 52"
proof -
  show "0 < ulp a"
    by (simp add: ulp_def pow2_powi)
  have "ulp a = pow2 (binade a) / 2 ^ 52"
    by (simp add: ulp_def pow2_powi power_int_diff)
  then show "ulp a \<le> a / 2 ^ 52"
    using binade_bounds [OF assms] by (simp add: divide_right_mono)
qed

text \<open>The rounding moves a number by at most half a unit in the last place.\<close>

lemma fl_error: "\<bar>fl x - x\<bar> \<le> \<bar>x\<bar> / 2 ^ 53"
proof (cases "x = 0")
  case True
  then show ?thesis by (simp add: fl_def)
next
  case False
  define a where "a = \<bar>x\<bar>"
  define u where "u = ulp a"
  define r where "r = real_of_int (roundHalfEven (a / u))"
  have a: "0 < a"
    using False by (simp add: a_def)
  have u: "0 < u" "u \<le> a / 2 ^ 52"
    using ulp_bounds [OF a] by (simp_all add: u_def)
  have near: "\<bar>r - a / u\<bar> \<le> 1 / 2"
    unfolding r_def by (rule roundHalfEven_near)
  have "r * u - a = (r - a / u) * u"
    using u(1) by (simp add: field_simps)
  then have "\<bar>r * u - a\<bar> = \<bar>r - a / u\<bar> * u"
    using u(1) by (simp add: abs_mult)
  also have "\<dots> \<le> 1 / 2 * u"
    using near u(1) by (intro mult_right_mono) simp_all
  also have "\<dots> \<le> a / 2 ^ 53"
    using u(2) by simp
  finally have ra: "\<bar>r * u - a\<bar> \<le> a / 2 ^ 53" .
  have x: "x = sgn x * a"
    by (simp add: a_def mult_sgn_abs)
  have "fl x = sgn x * (r * u)"
    using False by (simp add: fl_def r_def u_def a_def)
  then have "fl x - x = sgn x * (r * u - a)"
    using x by (simp add: algebra_simps)
  then have "\<bar>fl x - x\<bar> = \<bar>r * u - a\<bar>"
    using False by (simp add: abs_mult abs_sgn_eq)
  with ra show ?thesis
    by (simp add: a_def)
qed

subsection \<open>The efficiency score\<close>

text \<open>
  C1. The score of a system of size 0 is meant to be 0. \<open>calculateEfficiencyScore\<close>
  divides with no test, so for a zone of 0 panels (output 0, size 0) the figures of the
  selected zone show \<open>NaN\<close>: a new zone whose slider is moved to 0 has the score \<open>NaN\<close>
  in \<open>updateSelectedZoneStats\<close>. The totals of \<open>updateZoneAnalysis\<close> for the same
  state test \<open>totalPower > 0\<close> and show 0.
\<close>

theorem efficiency_score_zero_size:
  "calculateEfficiencyScore (Num 0) (Num 0) = NaN
   \<and> statEfficiency (zoneStats None (demoZone 100 0)) = NaN
   \<and> map_option (\<lambda>v. map_option statEfficiency (shownStats v))
        (snd (zonePanelCountInput (Num 0)
           (createZone demoLeaflet 1 Polygon (newApp demoLayers)))) = Some (Some NaN)
   \<and> map_option (\<lambda>v. overallEfficiency (shownTotals v))
        (snd (zonePanelCountInput (Num 0)
           (createZone demoLeaflet 1 Polygon (newApp demoLayers)))) = Some (Num 0)"
  by (simp add: state_defs metric_defs demo_defs)

subsection \<open>The payback period\<close>

text \<open>
  C4, as stated: with monthly savings of 0 the payback period is a sentinel and never
  \<open>NaN\<close>. It fails at a system cost of 0, which is what the page computes whenever the
  savings are 0 because the panel count is 0: \<open>0 / (0 * 12)\<close> is \<open>NaN\<close>, and
  \<open>generateOptimizationResults\<close> stores it (\<open>toFixed\<close> prints \<open>"NaN"\<close>).
\<close>

theorem paybackPeriod_zero_cost_counterexample:
  "paybackPeriod (Num 0) (Num 0) = NaN
   \<and> map_option optPaybackPeriod (generateOptimizationResults (Some (Num 7)) (Num 0) None)
       = Some NaN"
  by (simp add: paybackPeriod_def generateOptimizationResults_def Let_def)

text \<open>
  C4, amended. For finite arguments the payback period is
  \<open>systemCost / (monthlySavings * 12)\<close> when the savings are not 0. When they are 0
  nothing is tested and nothing is thrown: the quotient is \<open>Infinity\<close> for a positive
  cost (so for a cost of 30000), \<open>-Infinity\<close> for a negative one and \<open>NaN\<close> for a
  cost of 0.
\<close>

theorem paybackPeriod_cases:
  "paybackPeriod (Num c) (Num m) =
     (if m \<noteq> 0 then Num (c / (m * 12))
      else if c = 0 then NaN else if 0 < c then PosInf else NegInf)
   \<and> paybackPeriod (Num 30000) (Num 0) = PosInf"
  by (simp add: paybackPeriod_def)

subsection \<open>The energy output of a zone\<close>

text \<open>
  C8, as stated: the output is the specification's formula at the sample's daily hours
  whenever a sample is there. It fails for a sample whose daily average is 0 (a series
  of zeros from the weather service): the test \<open>this.sunlightData.daily\<close> is falsy, the
  default of 4.2 hours is used, and 25 panels of 400 W give 13030.5 kWh, not 0.
\<close>

theorem calculateEnergyOutput_zero_hours_counterexample:
  "map_option daily (fetchSunlightData (Num 70) (Series [Some (Num 0), None, Some (Num 0)]) None)
     = Some (Num 0)
   \<and> calculateEnergyOutput
        (fetchSunlightData (Num 70) (Series [Some (Num 0), None, Some (Num 0)]) None)
        (demoZone 100 25) = Num (130305 / 10)
   \<and> annualEnergyOutputKWh_spec (demoZone 100 25) (Num 0) = Num 0"
  by (simp add: metric_defs demo_defs annualEnergyOutputKWh_spec_def calculateDailyAverage_def
      processedHours_def calculateWeeklyTotal_def calculateMonthlyAverage_def
      calculateYearlyEstimate_def dbl_defs fl_eval)

text \<open>
  C8, amended. For a zone with finite panel count and wattage and a ratio that is not
  0: without a sample the output is the formula at 4.2 hours; with a sample whose daily
  hours are finite and not 0 it is the formula at those hours, which is the
  specification's formula; with a sample whose daily hours are 0 or \<open>NaN\<close> it is the
  formula at 4.2 hours again.
\<close>

theorem calculateEnergyOutput_formula:
  assumes "panelCount z = Num n" and "panelWattage z = Num w" and "efficiency z = Num r"
    and "r \<noteq> 0"
  shows "(sd = None \<longrightarrow>
            calculateEnergyOutput sd z = Num (n * w / 1000 * (42 / 10) * 365 * r))
       \<and> (\<forall>d h. sd = Some d \<and> daily d = Num h \<and> h \<noteq> 0 \<longrightarrow>
            calculateEnergyOutput sd z = Num (n * w / 1000 * h * 365 * r)
            \<and> calculateEnergyOutput sd z = annualEnergyOutputKWh_spec z (daily d))
       \<and> (\<forall>d. sd = Some d \<and> (daily d = Num 0 \<or> daily d = NaN) \<longrightarrow>
            calculateEnergyOutput sd z = Num (n * w / 1000 * (42 / 10) * 365 * r))"
  using assms by (auto simp: calculateEnergyOutput_def annualEnergyOutputKWh_spec_def Let_def)

theorem calculateEnergyOutput_formula_witness:
  "calculateEnergyOutput None (demoZone 100 25) = Num (130305 / 10)
   \<and> calculateEnergyOutput
        (Some \<lparr>daily = Num 5, weekly = Num 35, monthly = Num 150, yearly = Num 1825\<rparr>)
        (demoZone 100 25) = Num (155125 / 10)
   \<and> calculateEnergyOutput (Some \<lparr>daily = NaN, weekly = NaN, monthly = NaN, yearly = NaN\<rparr>)
        (demoZone 100 25) = Num (130305 / 10)"
proof -
  have z: "panelCount (demoZone 100 25) = Num 25" "panelWattage (demoZone 100 25) = Num 400"
    "efficiency (demoZone 100 25) = Num (85 / 100)" "(85 / 100 :: real) \<noteq> 0"
    by (simp_all add: demoZone_def)
  show ?thesis
    using calculateEnergyOutput_formula [OF z, of None]
      calculateEnergyOutput_formula [OF z,
        of "Some \<lparr>daily = Num 5, weekly = Num 35, monthly = Num 150, yearly = Num 1825\<rparr>"]
      calculateEnergyOutput_formula [OF z,
        of "Some \<lparr>daily = NaN, weekly = NaN, monthly = NaN, yearly = NaN\<rparr>"]
    by simp
qed

subsection \<open>The recommended maximum and the slider\<close>

lemma fl_2: "fl 2 = 2"
  by (simp add: fl_eval)

lemma fl_7_10: "fl (7 / 10) = 3152519739159347 / 4503599627370496"
  by (simp add: fl_eval)

text \<open>The recommended maximum of a finite area, operation by operation.\<close>

lemma calculateMaxRecommendedPanels_Num:
  "calculateMaxRecommendedPanels (Num a) =
     Num (of_int \<lfloor>fl (fl (fl (fl a * fl (7 / 10))) / 2)\<rfloor>)"
  by (simp add: calculateMaxRecommendedPanels_def dbl_defs fl_2)

text \<open>
  Five roundings lie between the area and the quotient; up to \<open>10^15\<close> square metres
  together they move it by less than 1.
\<close>

lemma maxPanels_close:
  assumes "0 \<le> a" and "a \<le> 10 ^ 15"
  shows "\<bar>fl (fl (fl (fl a * fl (7 / 10))) / 2) - a * (7 / 10) / 2\<bar> < 1"
proof -
  define a' where "a' = fl a"
  define q where "q = a' * (3152519739159347 / 4503599627370496)"
  define p where "p = fl q"
  define p' where "p' = fl p"
  define h where "h = fl (p' / 2)"
  have e1: "\<bar>a' - a\<bar> \<le> \<bar>a\<bar> / 2 ^ 53"
    unfolding a'_def by (rule fl_error)
  have e2: "\<bar>p - q\<bar> \<le> \<bar>q\<bar> / 2 ^ 53"
    unfolding p_def by (rule fl_error)
  have e3: "\<bar>p' - p\<bar> \<le> \<bar>p\<bar> / 2 ^ 53"
    unfolding p'_def by (rule fl_error)
  have e4: "\<bar>h - p' / 2\<bar> \<le> \<bar>p' / 2\<bar> / 2 ^ 53"
    unfolding h_def by (rule fl_error)
  have "\<bar>h - a * (7 / 10) / 2\<bar> < 1"
    using assms e1 e2 e3 e4 unfolding q_def by (simp add: abs_if split: if_splits) 
  then show ?thesis
    by (simp add: h_def p'_def p_def q_def a'_def fl_7_10)
qed

text \<open>
  C9, as stated: the recommended maximum of every area is \<open>floor(area * 0.7 / 2)\<close>. For
  180 square metres that floor is 63, but \<open>180 * 0.7\<close> is \<open>125.99999999999999\<close> in
  doubles, half of it is below 63, and the function returns 62.
\<close>

theorem maxRecommended_exact_floor_counterexample:
  "calculateMaxRecommendedPanels (Num 180) = Num 62
   \<and> \<lfloor>(180::real) * (7 / 10) / 2\<rfloor> = 63"
  by (simp add: calculateMaxRecommendedPanels_def dbl_defs fl_eval)

text \<open>
  C9, amended. For an area from 0 to \<open>10^15\<close> square metres the recommended maximum is a
  whole number at most one away from \<open>floor(area * 0.7 / 2)\<close>; it is 49 for 140 square
  metres and 62 for 180. It limits nothing: for a selected zone the slider's listener
  stores whatever count it is given and changes nothing else of the state; it shows the
  area, the system size, the energy output and the efficiency score of the zone with the
  new count and the totals of the store, and carries the warning exactly when the count
  is above the recommended maximum of the zone's area.
\<close>

theorem maxRecommended_advisory:
  "(0 \<le> a \<and> a \<le> 10 ^ 15 \<longrightarrow>
      (\<exists>k. calculateMaxRecommendedPanels (Num a) = Num (of_int k)
           \<and> \<bar>k - \<lfloor>a * (7 / 10) / 2\<rfloor>\<bar> \<le> 1))
   \<and> calculateMaxRecommendedPanels (Num 140) = Num 49
   \<and> calculateMaxRecommendedPanels (Num 180) = Num 62
   \<and> (\<forall>r. selectedZone s = Some r \<longrightarrow>
        (case zonePanelCountInput pc s of
           (s', v) \<Rightarrow>
             s' = s\<lparr>zoneObj := (zoneObj s)(r := (zoneObj s r)\<lparr>panelCount := pc\<rparr>)\<rparr>
             \<and> panelCount (zoneObj s' r) = pc
             \<and> area (zoneObj s' r) = area (zoneObj s r)
             \<and> (\<forall>r'. r' \<noteq> r \<longrightarrow> zoneObj s' r' = zoneObj s r')
             \<and> drawingZones s' = drawingZones s
             \<and> selectedZone s' = Some r
             \<and> v = Some
                 \<lparr>warning = js_gt pc (calculateMaxRecommendedPanels (area (zoneObj s r))),
                  maxRecommended = calculateMaxRecommendedPanels (area (zoneObj s r)),
                  shownStats = Some
                    \<lparr>statArea = area (zoneObj s r),
                     statPower = js_div (js_mul pc (panelWattage (zoneObj s r))) (Num 1000),
                     statOutput = calculateEnergyOutput (sunlightData s) (zoneObj s' r),
                     statEfficiency =
                       calculateEfficiencyScore
                         (calculateEnergyOutput (sunlightData s) (zoneObj s' r))
                         (js_div (js_mul pc (panelWattage (zoneObj s r))) (Num 1000))\<rparr>,
                  shownTotals = zoneTotals (sunlightData s) (map (zoneObj s') (drawingZones s))\<rparr>))"
proof (intro conjI impI allI)
  assume a: "0 \<le> a \<and> a \<le> 10 ^ 15"
  define h where "h = fl (fl (fl (fl a * fl (7 / 10))) / 2)"
  define t where "t = a * (7 / 10) / 2"
  have "\<bar>h - t\<bar> < 1"
    unfolding h_def t_def using a by (intro maxPanels_close) simp_all
  then have le: "h \<le> t + 1" "t \<le> h + 1"
    by linarith+
  have "\<lfloor>h\<rfloor> \<le> \<lfloor>t + 1\<rfloor>" and "\<lfloor>t\<rfloor> \<le> \<lfloor>h + 1\<rfloor>"
    using le by (simp_all only: floor_mono)
  then have "\<bar>\<lfloor>h\<rfloor> - \<lfloor>a * (7 / 10) / 2\<rfloor>\<bar> \<le> 1"
    unfolding t_def [symmetric] by simp
  moreover have "calculateMaxRecommendedPanels (Num a) = Num (of_int \<lfloor>h\<rfloor>)"
    unfolding h_def by (rule calculateMaxRecommendedPanels_Num)
  ultimately show "\<exists>k. calculateMaxRecommendedPanels (Num a) = Num (of_int k)
           \<and> \<bar>k - \<lfloor>a * (7 / 10) / 2\<rfloor>\<bar> \<le> 1"
    by blast
next
  show "calculateMaxRecommendedPanels (Num 140) = Num 49"
    by (simp add: calculateMaxRecommendedPanels_def dbl_defs fl_eval)
next
  show "calculateMaxRecommendedPanels (Num 180) = Num 62"
    by (simp add: calculateMaxRecommendedPanels_def dbl_defs fl_eval)
next
  fix r assume "selectedZone s = Some r"
  then show "case zonePanelCountInput pc s of
           (s', v) \<Rightarrow>
             s' = s\<lparr>zoneObj := (zoneObj s)(r := (zoneObj s r)\<lparr>panelCount := pc\<rparr>)\<rparr>
             \<and> panelCount (zoneObj s' r) = pc
             \<and> area (zoneObj s' r) = area (zoneObj s r)
             \<and> (\<forall>r'. r' \<noteq> r \<longrightarrow> zoneObj s' r' = zoneObj s r')
             \<and> drawingZones s' = drawingZones s
             \<and> selectedZone s' = Some r
             \<and> v = Some
                 \<lparr>warning = js_gt pc (calculateMaxRecommendedPanels (area (zoneObj s r))),
                  maxRecommended = calculateMaxRecommendedPanels (area (zoneObj s r)),
                  shownStats = Some
                    \<lparr>statArea = area (zoneObj s r),
                     statPower = js_div (js_mul pc (panelWattage (zoneObj s r))) (Num 1000),
                     statOutput = calculateEnergyOutput (sunlightData s) (zoneObj s' r),
                     statEfficiency =
                       calculateEfficiencyScore
                         (calculateEnergyOutput (sunlightData s) (zoneObj s' r))
                         (js_div (js_mul pc (panelWattage (zoneObj s r))) (Num 1000))\<rparr>,
                  shownTotals = zoneTotals (sunlightData s) (map (zoneObj s') (drawingZones s))\<rparr>"
    by (simp add: zonePanelCountInput_def Let_def updateSelectedZoneStats_def zoneStats_def
        updateZoneAnalysis_def)
qed

theorem maxRecommended_advisory_witness:
  "(\<exists>k. calculateMaxRecommendedPanels (Num 180) = Num (of_int k) \<and> \<bar>k - 63\<bar> \<le> 1)
   \<and> (case zonePanelCountInput (Num 60) (createZone demoLeaflet 3 Polygon (newApp demoLayers)) of
      (s', v) \<Rightarrow>
        area (zoneObj s' 1) = Num 140
        \<and> panelCount (zoneObj s' 1) = Num 60
        \<and> map_option warning v = Some True
        \<and> map_option maxRecommended v = Some (Num 49)
        \<and> map_option (\<lambda>x. map_option statPower (shownStats x)) v = Some (Some (Num 24))
        \<and> map_option (\<lambda>x. map_option statOutput (shownStats x)) v = Some (Some (Num (312732 / 10)))
        \<and> map_option (\<lambda>x. map_option statEfficiency (shownStats x)) v = Some (Some (Num 100))
        \<and> map_option (\<lambda>x. totalPanels (shownTotals x)) v = Some (Num 60)
        \<and> map_option (\<lambda>x. totalPower (shownTotals x)) v = Some (Num 24))"
proof -
  have f: "\<lfloor>(180::real) * (7 / 10) / 2\<rfloor> = 63"
    by simp
  have m: "calculateMaxRecommendedPanels (Num 140) = Num 49"
    by (simp add: calculateMaxRecommendedPanels_def dbl_defs fl_eval)
  note t = maxRecommended_advisory [of 180 "createZone demoLeaflet 3 Polygon (newApp demoLayers)"
      "Num 60"]
  have "\<exists>k. calculateMaxRecommendedPanels (Num 180) = Num (of_int k) \<and> \<bar>k - 63\<bar> \<le> 1"
    using t [THEN conjunct1] f by simp
  moreover have "case zonePanelCountInput (Num 60) (createZone demoLeaflet 3 Polygon (newApp demoLayers)) of
      (s', v) \<Rightarrow>
        area (zoneObj s' 1) = Num 140
        \<and> panelCount (zoneObj s' 1) = Num 60
        \<and> map_option warning v = Some True
        \<and> map_option maxRecommended v = Some (Num 49)
        \<and> map_option (\<lambda>x. map_option statPower (shownStats x)) v = Some (Some (Num 24))
        \<and> map_option (\<lambda>x. map_option statOutput (shownStats x)) v = Some (Some (Num (312732 / 10)))
        \<and> map_option (\<lambda>x. map_option statEfficiency (shownStats x)) v = Some (Some (Num 100))
        \<and> map_option (\<lambda>x. totalPanels (shownTotals x)) v = Some (Num 60)
        \<and> map_option (\<lambda>x. totalPower (shownTotals x)) v = Some (Num 24)"
    using t [THEN conjunct2, THEN conjunct2, THEN conjunct2, rule_format, of 1] m
    by (simp add: state_defs metric_defs demo_defs)
  ultimately show ?thesis
    by simp
qed

subsection \<open>The sunshine series\<close>

lemma processedHours_nth:
  "i < length hs \<Longrightarrow> processedHours hs ! i =
     (case hs ! i of None \<Rightarrow> None
      | Some v \<Rightarrow> if js_gt v (Num 24) then Some (dbl_div v (Num 3600)) else Some v)"
  by (simp add: processedHours_def)

lemma validHours_filter: "validHours (filter (\<lambda>h. h \<noteq> None) hs) = validHours hs"
  by (induction hs rule: validHours.induct) simp_all

lemma validHours_eq: "validHours hs = map the (filter (\<lambda>h. h \<noteq> None) hs)"
  by (induction hs rule: validHours.induct) simp_all

lemma processedHours_filter:
  "processedHours (filter (\<lambda>h. h \<noteq> None) hs) = filter (\<lambda>h. h \<noteq> None) (processedHours hs)"
  by (induction hs) (auto simp: processedHours_def split: option.splits)

text \<open>
  C10. The series \<open>fetchSunlightData\<close> averages has an entry for every entry of the
  fetched one: \<open>null\<close> stays \<open>null\<close>, a number above 24 is divided by 3600 (the double
  nearest to the quotient), a number of at most 24 is kept as it is. The daily average
  that \<open>fetchSunlightData\<close> stores is \<open>calculateDailyAverage\<close> of that series. The
  average does not see the \<open>null\<close> entries: it is the same for the series with them
  left out, for the fetched series as for any other, and it is the sum of the entries
  that are not \<open>null\<close> over their number, rounded to one decimal, each step as the
  machine computes it. Two series: 36000, \<open>null\<close>, 5 gives 7.5; 0.1, \<open>null\<close>, 4.6
  gives the double 2.3 (the computed mean is below 2.35).
\<close>

theorem sunshine_series_processing:
  "length (processedHours hs) = length hs
   \<and> (\<forall>i < length hs.
        (hs ! i = None \<longrightarrow> processedHours hs ! i = None)
        \<and> (\<forall>v. hs ! i = Some v \<and> js_gt v (Num 24) \<longrightarrow>
              processedHours hs ! i = Some (dbl_div v (Num 3600)))
        \<and> (\<forall>v. hs ! i = Some v \<and> \<not> js_gt v (Num 24) \<longrightarrow> processedHours hs ! i = Some v)
        \<and> (\<forall>x. hs ! i = Some (Num x) \<and> 24 < x \<longrightarrow>
              processedHours hs ! i = Some (Num (fl (fl x / 3600))))
        \<and> (\<forall>x. hs ! i = Some (Num x) \<and> x \<le> 24 \<longrightarrow> processedHours hs ! i = Some (Num x)))
   \<and> map_option daily (fetchSunlightData lat (Series hs) old)
       = Some (calculateDailyAverage (processedHours hs))
   \<and> calculateDailyAverage hs = calculateDailyAverage (filter (\<lambda>h. h \<noteq> None) hs)
   \<and> map_option daily (fetchSunlightData lat (Series hs) old)
       = map_option daily (fetchSunlightData lat (Series (filter (\<lambda>h. h \<noteq> None) hs)) old)
   \<and> calculateDailyAverage hs
       = dbl_div
           (js_round
             (dbl_mul
               (dbl_div (foldl dbl_add (Num 0) (map the (filter (\<lambda>h. h \<noteq> None) hs)))
                        (Num (real (length (filter (\<lambda>h. h \<noteq> None) hs)))))
               (Num 10)))
           (Num 10)
   \<and> map_option daily
         (fetchSunlightData lat (Series [Some (Num 36000), None, Some (Num 5)]) old)
       = Some (Num (75 / 10))
   \<and> map_option daily
         (fetchSunlightData lat (Series [Some (Num (1 / 10)), None, Some (Num (46 / 10))]) old)
       = Some (Num (fl (23 / 10)))"
proof (intro conjI allI impI)
  show "length (processedHours hs) = length hs"
    by (simp add: processedHours_def)
next
  fix i assume "i < length hs" "hs ! i = None"
  then show "processedHours hs ! i = None"
    by (simp add: processedHours_nth)
next
  fix i v assume "i < length hs" "hs ! i = Some v \<and> js_gt v (Num 24)"
  then show "processedHours hs ! i = Some (dbl_div v (Num 3600))"
    by (simp add: processedHours_nth)
next
  fix i v assume "i < length hs" "hs ! i = Some v \<and> \<not> js_gt v (Num 24)"
  then show "processedHours hs ! i = Some v"
    by (simp add: processedHours_nth)
next
  have c: "fl 3600 = 3600"
    by (simp add: fl_eval)
  fix i x assume "i < length hs" "hs ! i = Some (Num x) \<and> 24 < x"
  then show "processedHours hs ! i = Some (Num (fl (fl x / 3600)))"
    by (simp add: processedHours_nth dbl_div_def c)
next
  fix i x assume "i < length hs" "hs ! i = Some (Num x) \<and> x \<le> 24"
  then show "processedHours hs ! i = Some (Num x)"
    by (simp add: processedHours_nth)
next
  show "map_option daily (fetchSunlightData lat (Series hs) old)
       = Some (calculateDailyAverage (processedHours hs))"
    by (simp add: Let_def)
next
  show "calculateDailyAverage hs = calculateDailyAverage (filter (\<lambda>h. h \<noteq> None) hs)"
    unfolding calculateDailyAverage_def validHours_filter by (rule refl)
next
  show "map_option daily (fetchSunlightData lat (Series hs) old)
       = map_option daily (fetchSunlightData lat (Series (filter (\<lambda>h. h \<noteq> None) hs)) old)"
    unfolding fetchSunlightData.simps Let_def processedHours_filter calculateDailyAverage_def
      validHours_filter
    by simp
next
  show "calculateDailyAverage hs
       = dbl_div
           (js_round
             (dbl_mul
               (dbl_div (foldl dbl_add (Num 0) (map the (filter (\<lambda>h. h \<noteq> None) hs)))
                        (Num (real (length (filter (\<lambda>h. h \<noteq> None) hs)))))
               (Num 10)))
           (Num 10)"
    unfolding calculateDailyAverage_def Let_def validHours_eq length_map by (rule refl)
next
  show "map_option daily
         (fetchSunlightData lat (Series [Some (Num 36000), None, Some (Num 5)]) old)
       = Some (Num (75 / 10))"
    by (simp add: calculateDailyAverage_def processedHours_def Let_def dbl_defs fl_eval)
next
  have e: "fl (23 / 10) = 2589569785738035 / 1125899906842624"
    by (simp add: fl_eval)
  show "map_option daily
         (fetchSunlightData lat (Series [Some (Num (1 / 10)), None, Some (Num (46 / 10))]) old)
       = Some (Num (fl (23 / 10)))"
    unfolding e
    by (simp add: calculateDailyAverage_def processedHours_def Let_def dbl_defs fl_eval)
qed

theorem sunshine_series_processing_witness:
  "processedHours [Some (Num 36000), None, Some (Num 5)] ! 0 = Some (Num 10)
   \<and> processedHours [Some (Num 36000), None, Some (Num 5)] ! 1 = None
   \<and> processedHours [Some (Num 36000), None, Some (Num 5)] ! 2 = Some (Num 5)
   \<and> map_option daily
         (fetchSunlightData (Num 50) (Series [Some (Num 36000), None, Some (Num 5)]) None)
       = Some (Num (75 / 10))
   \<and> calculateDailyAverage [Some (Num (1 / 10)), None, Some (Num (46 / 10))]
       = Num (fl (23 / 10))
   \<and> fl (23 / 10) < 235 / 100"
proof -
  let ?hs = "[Some (Num 36000), None, Some (Num 5)]"
  let ?qs = "[Some (Num (1 / 10)), None, Some (Num (46 / 10))]"
  note entry = sunshine_series_processing [of ?hs, THEN conjunct2, THEN conjunct1, rule_format]
  note rest = sunshine_series_processing [THEN conjunct2, THEN conjunct2]
  have c: "fl (fl 36000 / 3600) = 10"
    by (simp add: fl_eval)
  have "processedHours ?hs ! 0 = Some (Num (fl (fl 36000 / 3600)))"
    using entry [of 0, THEN conjunct2, THEN conjunct2, THEN conjunct2, THEN conjunct1,
        rule_format, of 36000] by simp
  then have p0: "processedHours ?hs ! 0 = Some (Num 10)"
    by (simp only: c)
  have p1: "processedHours ?hs ! 1 = None"
    using entry [of 1, THEN conjunct1] by simp
  have p2: "processedHours ?hs ! 2 = Some (Num 5)"
    using entry [of 2, THEN conjunct2, THEN conjunct2, THEN conjunct2, THEN conjunct2,
        rule_format, of 5] by simp
  have d: "map_option daily (fetchSunlightData (Num 50) (Series ?hs) None) = Some (Num (75 / 10))"
    by (rule rest [of "Num 50" ?hs None, THEN conjunct2, THEN conjunct2, THEN conjunct2,
        THEN conjunct2, THEN conjunct1])
  have "map_option daily (fetchSunlightData (Num 50) (Series ?qs) None)
      = Some (Num (fl (23 / 10)))"
    by (rule rest [of "Num 50" ?hs None, THEN conjunct2, THEN conjunct2, THEN conjunct2,
        THEN conjunct2, THEN conjunct2])
  moreover have "map_option daily (fetchSunlightData (Num 50) (Series ?qs) None)
      = Some (calculateDailyAverage (processedHours ?qs))"
    by (rule rest [of "Num 50" ?qs None, THEN conjunct1])
  moreover have "processedHours ?qs = ?qs"
    by (simp add: processedHours_def)
  ultimately have q: "calculateDailyAverage ?qs = Num (fl (23 / 10))"
    by (metis option.inject)
  have lt: "fl (23 / 10) < 235 / 100"
    by (simp add: fl_eval)
  show ?thesis
    using p0 p1 p2 d q lt by simp
qed

subsection \<open>The totals of the store\<close>

lemma is_finite_Num_val: "is_finite a \<Longrightarrow> a = Num (num_val a)"
  by (cases a) simp_all

lemma calculateEnergyOutput_finite:
  assumes "finiteZone z" and "finiteSample sd"
  shows "is_finite (calculateEnergyOutput sd z)"
proof -
  obtain n w r where z: "panelCount z = Num n" "panelWattage z = Num w" "efficiency z = Num r"
    using assms(1) unfolding finiteZone_def
    by (metis is_finite.elims(2))
  show ?thesis
  proof (cases sd)
    case None
    then show ?thesis
      by (simp add: calculateEnergyOutput_def z Let_def)
  next
    case (Some d)
    with assms(2) have "daily d \<noteq> PosInf" "daily d \<noteq> NegInf"
      by (simp_all add: finiteSample_def)
    then show ?thesis
      using Some by (cases "daily d") (simp_all add: calculateEnergyOutput_def z Let_def)
  qed
qed

lemma analysisStep_finite:
  assumes "finiteZone z" and "finiteSample sd"
  shows "analysisStep sd z (Num a, Num p, Num w, Num e) =
     (Num (a + num_val (area z)), Num (p + num_val (panelCount z)),
      Num (w + systemSizeKW z), Num (e + num_val (calculateEnergyOutput sd z)))"
proof -
  obtain x n v where z: "area z = Num x" "panelCount z = Num n" "panelWattage z = Num v"
    using assms(1) unfolding finiteZone_def
    by (metis is_finite.elims(2))
  obtain y where y: "calculateEnergyOutput sd z = Num y"
    using calculateEnergyOutput_finite [OF assms] is_finite_Num_val by blast
  show ?thesis
    by (simp add: analysisStep_def z y systemSizeKW_def)
qed

text \<open>The loop over the zones, started from any four finite totals.\<close>

lemma fold_analysisStep_finite:
  assumes "list_all finiteZone zs" and "finiteSample sd"
  shows "fold (analysisStep sd) zs (Num a, Num p, Num w, Num e) =
     (Num (a + (\<Sum>z\<leftarrow>zs. num_val (area z))),
      Num (p + (\<Sum>z\<leftarrow>zs. num_val (panelCount z))),
      Num (w + (\<Sum>z\<leftarrow>zs. systemSizeKW z)),
      Num (e + (\<Sum>z\<leftarrow>zs. num_val (calculateEnergyOutput sd z))))"
  using assms(1)
proof (induction zs arbitrary: a p w e)
  case Nil
  then show ?case by simp
next
  case (Cons z zs)
  then have "finiteZone z" and "list_all finiteZone zs"
    by simp_all
  then show ?case
    using Cons.IH assms(2) by (simp add: analysisStep_finite add.assoc)
qed

lemma zoneTotals_sums:
  assumes "list_all finiteZone zs" and "finiteSample sd"
  shows "zoneTotals sd zs =
     \<lparr>zones = length zs,
      totalArea = Num (\<Sum>z\<leftarrow>zs. num_val (area z)),
      totalPanels = Num (\<Sum>z\<leftarrow>zs. num_val (panelCount z)),
      totalPower = Num (\<Sum>z\<leftarrow>zs. systemSizeKW z),
      totalAnnualOutput = Num (\<Sum>z\<leftarrow>zs. num_val (calculateEnergyOutput sd z)),
      overallEfficiency =
        (if 0 < (\<Sum>z\<leftarrow>zs. systemSizeKW z)
         then calculateEfficiencyScore (Num (\<Sum>z\<leftarrow>zs. num_val (calculateEnergyOutput sd z)))
                (Num (\<Sum>z\<leftarrow>zs. systemSizeKW z))
         else Num 0)\<rparr>"
proof (cases zs)
  case Nil
  then show ?thesis
    by (simp add: zoneTotals_def hideZoneAnalysis_def)
next
  case (Cons z zs')
  then have "length zs \<noteq> 0"
    by simp
  then show ?thesis
    using fold_analysisStep_finite [OF assms, of 0 0 0 0]
    by (simp add: zoneTotals_def)
qed

text \<open>
  C7, as stated: for the two zones of 100 and 200 square metres, 25 panels of 400 W
  each, ratio 0.85 and 4.2 hours, the total output is about 26068.5 kWh. Each zone gives
  \<open>10 * 4.2 * 365 * 0.85 = 13030.5\<close> kWh, so the total is 26061 kWh, 7.5 kWh less.
\<close>

theorem total_output_two_zones_counterexample:
  "calculateEnergyOutput (sunlightData demoTwoZones) (zoneObj demoTwoZones 1) = Num (130305 / 10)
   \<and> calculateEnergyOutput (sunlightData demoTwoZones) (zoneObj demoTwoZones 2) = Num (130305 / 10)
   \<and> totalAnnualOutput (updateZoneAnalysis demoTwoZones) = Num 26061
   \<and> totalAnnualOutput (updateZoneAnalysis demoTwoZones) \<noteq> Num (260685 / 10)
   \<and> 260685 / 10 - num_val (totalAnnualOutput (updateZoneAnalysis demoTwoZones)) = 75 / 10"
  by (simp add: demoTwoZones_def state_defs demo_defs metric_defs)

text \<open>
  C7, amended. For a store of zones with finite numbers (and a sample, if any, whose
  daily hours are not an infinity) the totals are the number of zones and the sums of
  the areas, the panel counts, the system sizes and the energy outputs over all zones,
  and the overall score is 0 when the summed size is not positive and otherwise the
  score of the summed output over the summed size. For the empty store every total is 0.
  For the two zones above the totals are 300 square metres, 50 panels, 20 kW,
  26061 kWh and a score of 100.
\<close>

theorem updateZoneAnalysis_sums:
  "(list_all finiteZone (map (zoneObj s) (drawingZones s)) \<and> finiteSample (sunlightData s) \<longrightarrow>
      updateZoneAnalysis s =
        \<lparr>zones = length (drawingZones s),
         totalArea = Num (\<Sum>r\<leftarrow>drawingZones s. num_val (area (zoneObj s r))),
         totalPanels = Num (\<Sum>r\<leftarrow>drawingZones s. num_val (panelCount (zoneObj s r))),
         totalPower = Num (\<Sum>r\<leftarrow>drawingZones s. systemSizeKW (zoneObj s r)),
         totalAnnualOutput =
           Num (\<Sum>r\<leftarrow>drawingZones s.
                  num_val (calculateEnergyOutput (sunlightData s) (zoneObj s r))),
         overallEfficiency =
           (if 0 < (\<Sum>r\<leftarrow>drawingZones s. systemSizeKW (zoneObj s r))
            then calculateEfficiencyScore
                   (Num (\<Sum>r\<leftarrow>drawingZones s.
                           num_val (calculateEnergyOutput (sunlightData s) (zoneObj s r))))
                   (Num (\<Sum>r\<leftarrow>drawingZones s. systemSizeKW (zoneObj s r)))
            else Num 0)\<rparr>)
   \<and> (drawingZones s = [] \<longrightarrow>
        updateZoneAnalysis s =
          \<lparr>zones = 0, totalArea = Num 0, totalPanels = Num 0, totalPower = Num 0,
           totalAnnualOutput = Num 0, overallEfficiency = Num 0\<rparr>)
   \<and> updateZoneAnalysis demoTwoZones =
        \<lparr>zones = 2, totalArea = Num 300, totalPanels = Num 50, totalPower = Num 20,
         totalAnnualOutput = Num 26061, overallEfficiency = Num 100\<rparr>"
proof (intro conjI impI)
  assume "list_all finiteZone (map (zoneObj s) (drawingZones s)) \<and> finiteSample (sunlightData s)"
  then show "updateZoneAnalysis s =
        \<lparr>zones = length (drawingZones s),
         totalArea = Num (\<Sum>r\<leftarrow>drawingZones s. num_val (area (zoneObj s r))),
         totalPanels = Num (\<Sum>r\<leftarrow>drawingZones s. num_val (panelCount (zoneObj s r))),
         totalPower = Num (\<Sum>r\<leftarrow>drawingZones s. systemSizeKW (zoneObj s r)),
         totalAnnualOutput =
           Num (\<Sum>r\<leftarrow>drawingZones s.
                  num_val (calculateEnergyOutput (sunlightData s) (zoneObj s r))),
         overallEfficiency =
           (if 0 < (\<Sum>r\<leftarrow>drawingZones s. systemSizeKW (zoneObj s r))
            then calculateEfficiencyScore
                   (Num (\<Sum>r\<leftarrow>drawingZones s.
                           num_val (calculateEnergyOutput (sunlightData s) (zoneObj s r))))
                   (Num (\<Sum>r\<leftarrow>drawingZones s. systemSizeKW (zoneObj s r)))
            else Num 0)\<rparr>"
    by (simp add: updateZoneAnalysis_def zoneTotals_sums comp_def)
next
  assume "drawingZones s = []"
  then show "updateZoneAnalysis s =
          \<lparr>zones = 0, totalArea = Num 0, totalPanels = Num 0, totalPower = Num 0,
           totalAnnualOutput = Num 0, overallEfficiency = Num 0\<rparr>"
    by (simp add: updateZoneAnalysis_def zoneTotals_def hideZoneAnalysis_def)
next
  show "updateZoneAnalysis demoTwoZones =
        \<lparr>zones = 2, totalArea = Num 300, totalPanels = Num 50, totalPower = Num 20,
         totalAnnualOutput = Num 26061, overallEfficiency = Num 100\<rparr>"
    by (simp add: demoTwoZones_def state_defs demo_defs metric_defs)
qed

theorem updateZoneAnalysis_sums_witness:
  "list_all finiteZone (map (zoneObj demoTwoZones) (drawingZones demoTwoZones))
   \<and> finiteSample (sunlightData demoTwoZones)
   \<and> totalPower (updateZoneAnalysis demoTwoZones) = Num 20
   \<and> totalPanels (updateZoneAnalysis demoTwoZones) = Num 50
   \<and> drawingZones (newApp demoLayers :: (real, real) app) = []
   \<and> totalPower (updateZoneAnalysis (newApp demoLayers :: (real, real) app)) = Num 0
   \<and> overallEfficiency (updateZoneAnalysis (newApp demoLayers :: (real, real) app)) = Num 0"
proof -
  have h: "list_all finiteZone (map (zoneObj demoTwoZones) (drawingZones demoTwoZones))
      \<and> finiteSample (sunlightData demoTwoZones)"
    by (simp add: demoTwoZones_def state_defs demo_defs finiteZone_def finiteSample_def Let_def)
  have e: "drawingZones (newApp demoLayers :: (real, real) app) = []"
    by (simp add: newApp_def)
  have v: "(\<Sum>r\<leftarrow>drawingZones demoTwoZones. systemSizeKW (zoneObj demoTwoZones r)) = 20"
    "(\<Sum>r\<leftarrow>drawingZones demoTwoZones. num_val (panelCount (zoneObj demoTwoZones r))) = 50"
    by (simp_all add: demoTwoZones_def state_defs demo_defs systemSizeKW_def Let_def)
  show ?thesis
    using updateZoneAnalysis_sums [of demoTwoZones, THEN conjunct1, rule_format, OF h]
      updateZoneAnalysis_sums [of "newApp demoLayers :: (real, real) app", THEN conjunct2,
        THEN conjunct1, rule_format, OF e] h e v
    by simp
qed

subsection \<open>Editing the geometry of a zone\<close>

text \<open>
  C2, as stated: an edit of the geometry does not alter the panel count. It fails for
  a zone whose count was moved off the default: the second zone, set to 60 panels by the
  slider and then edited to 250 square metres, is back at 25 panels.
\<close>

theorem onDrawEdited_panelCount_counterexample:
  "panelCount (zoneObj (fst (zonePanelCountInput (Num 60) demoTwoZones)) 2) = Num 60
   \<and> panelCount (zoneObj (onDrawEdited demoLeaflet [2]
        (setLatLngs 2 250 (fst (zonePanelCountInput (Num 60) demoTwoZones)))) 2) = Num 25
   \<and> area (zoneObj (onDrawEdited demoLeaflet [2]
        (setLatLngs 2 250 (fst (zonePanelCountInput (Num 60) demoTwoZones)))) 2) = Num 250"
  by (simp add: demoTwoZones_def state_defs demo_defs edit_defs Let_def calculatePanelCount_def)

text \<open>
  C2, amended. Let \<open>r\<close> be the zone of the store that \<open>onDrawEdited\<close> finds for the layer
  \<open>l\<close>. After the widget has given \<open>l\<close> the coordinates \<open>g\<close> and \<open>onDrawEdited\<close> has run
  for \<open>l\<close>, the area of \<open>r\<close> is \<open>calculateArea\<close> of the layer with the new coordinates
  (the geodesic area of \<open>g\<close> for a polygon or a rectangle), its panel count is the
  default 25, its other fields are unchanged, and so are every other zone object, the
  list of zones and the selection.
\<close>

theorem onDrawEdited_recomputes_area:
  assumes "find (\<lambda>r. layer (zoneObj s r) = l) (drawingZones s) = Some r"
  shows "(let s' = onDrawEdited lf [l] (setLatLngs l g s) in
          area (zoneObj s' r) = calculateArea lf ((layerObj s l)\<lparr>latLngs := g\<rparr>)
        \<and> (kind (layerObj s l) \<noteq> OtherLayer \<longrightarrow> area (zoneObj s' r) = geodesicArea lf g)
        \<and> panelCount (zoneObj s' r) = Num 25
        \<and> zid (zoneObj s' r) = zid (zoneObj s r)
        \<and> layer (zoneObj s' r) = layer (zoneObj s r)
        \<and> ztype (zoneObj s' r) = ztype (zoneObj s r)
        \<and> panelWattage (zoneObj s' r) = panelWattage (zoneObj s r)
        \<and> efficiency (zoneObj s' r) = efficiency (zoneObj s r)
        \<and> (\<forall>r'. r' \<noteq> r \<longrightarrow> zoneObj s' r' = zoneObj s r')
        \<and> drawingZones s' = drawingZones s
        \<and> selectedZone s' = selectedZone s)"
proof -
  have k: "kind (layerObj s l) \<noteq> OtherLayer \<Longrightarrow>
      kind (layerObj s l) = Polygon \<or> kind (layerObj s l) = Rectangle"
    by (cases "kind (layerObj s l)") simp_all
  show ?thesis
    using assms k
    by (auto simp: onDrawEdited_def setLatLngs_def calculatePanelCount_def calculateArea_def
        Let_def)
qed

theorem onDrawEdited_recomputes_area_witness:
  "area (zoneObj demoTwoZones 2) = Num 200
   \<and> area (zoneObj (onDrawEdited demoLeaflet [2] (setLatLngs 2 250 demoTwoZones)) 2) = Num 250
   \<and> panelCount (zoneObj (onDrawEdited demoLeaflet [2] (setLatLngs 2 250 demoTwoZones)) 2)
       = Num 25
   \<and> zoneObj (onDrawEdited demoLeaflet [2] (setLatLngs 2 250 demoTwoZones)) 1
       = zoneObj demoTwoZones 1"
proof -
  have f: "find (\<lambda>r. layer (zoneObj demoTwoZones r) = 2) (drawingZones demoTwoZones) = Some 2"
    by (simp add: demoTwoZones_def state_defs demo_defs Let_def)
  have d: "calculateArea demoLeaflet ((layerObj demoTwoZones 2)\<lparr>latLngs := 250\<rparr>) = Num 250"
    "area (zoneObj demoTwoZones 2) = Num 200"
    by (simp_all add: demoTwoZones_def state_defs demo_defs Let_def)
  show ?thesis
    using onDrawEdited_recomputes_area [OF f, of demoLeaflet 250] d by (simp add: Let_def)
qed

subsection \<open>The edit session\<close>

text \<open>
  C5, as stated: while a zone is being edited, \<open>editZone\<close> for another zone is rejected
  and leaves the snapshot and the editing zone as they are. With the first zone being
  edited, \<open>editZone\<close> for the second one makes the second the editing zone and replaces
  the snapshot by the second zone's geometry.
\<close>

theorem editZone_second_session_counterexample:
  "currentEditingZone (editZone demoLeaflet 1 demoTwoZones) = Some 1
   \<and> originalGeometry (editZone demoLeaflet 1 demoTwoZones) = Some 100
   \<and> currentEditingZone (editZone demoLeaflet 2 (editZone demoLeaflet 1 demoTwoZones)) = Some 2
   \<and> originalGeometry (editZone demoLeaflet 2 (editZone demoLeaflet 1 demoTwoZones)) = Some 200"
  by (simp add: demoTwoZones_def state_defs demo_defs edit_defs Let_def)

text \<open>
  C5, amended. The application records one edit session at most, in one snapshot and
  one editing-zone reference. \<open>editZone\<close> for an identifier no zone of the store has
  changes nothing. \<open>editZone\<close> for the identifier of a zone of the store is never
  rejected, whatever session is recorded: it writes the snapshot of that zone's
  geometry, that zone as the editing zone and an edit handler for its layer, and nothing
  else.
\<close>

theorem editZone_replaces_session:
  "(find (\<lambda>r. zid (zoneObj s r) = i) (drawingZones s) = None \<longrightarrow> editZone lf i s = s)
   \<and> (\<forall>r. find (\<lambda>r. zid (zoneObj s r) = i) (drawingZones s) = Some r \<longrightarrow>
        editZone lf i s =
          s\<lparr>originalGeometry := Some (toGeoJSON lf (latLngs (layerObj s (layer (zoneObj s r))))),
            currentEditingZone := Some r,
            currentEditHandler := Some (layer (zoneObj s r))\<rparr>)"
  by (simp add: editZone_def Let_def)

theorem editZone_replaces_session_witness:
  "currentEditingZone (editZone demoLeaflet 1 demoTwoZones) = Some 1
   \<and> currentEditingZone (editZone demoLeaflet 2 (editZone demoLeaflet 1 demoTwoZones)) = Some 2
   \<and> originalGeometry (editZone demoLeaflet 2 (editZone demoLeaflet 1 demoTwoZones)) = Some 200
   \<and> editZone demoLeaflet 7 (editZone demoLeaflet 1 demoTwoZones)
       = editZone demoLeaflet 1 demoTwoZones"
proof -
  let ?s = "editZone demoLeaflet 1 demoTwoZones"
  have f: "find (\<lambda>r. zid (zoneObj ?s r) = 2) (drawingZones ?s) = Some 2"
    "find (\<lambda>r. zid (zoneObj ?s r) = 7) (drawingZones ?s) = None"
    "find (\<lambda>r. zid (zoneObj demoTwoZones r) = 1) (drawingZones demoTwoZones) = Some 1"
    by (simp_all add: demoTwoZones_def state_defs demo_defs edit_defs Let_def)
  have g: "toGeoJSON demoLeaflet (latLngs (layerObj ?s (layer (zoneObj ?s 2)))) = 200"
    by (simp_all add: demoTwoZones_def state_defs demo_defs edit_defs Let_def)
  show ?thesis
    using editZone_replaces_session [of ?s 2 demoLeaflet, THEN conjunct2, rule_format, OF f(1)]
      editZone_replaces_session [of ?s 7 demoLeaflet, THEN conjunct1, rule_format, OF f(2)]
      editZone_replaces_session [of demoTwoZones 1 demoLeaflet, THEN conjunct2, rule_format,
        OF f(3)] g
    by simp
qed

lemma fold_setLatLngs:
  "fold (setLatLngs l) gs s =
     (if gs = [] then s
      else s\<lparr>layerObj := (layerObj s)(l := (layerObj s l)\<lparr>latLngs := last gs\<rparr>)\<rparr>)"
proof (induction gs arbitrary: s)
  case Nil
  then show ?case by simp
next
  case (Cons g gs)
  then show ?case
    by (simp add: setLatLngs_def)
qed

text \<open>
  C6, as stated: \<open>editZone\<close>, any move of the geometry and \<open>cancelZoneEdit\<close> leave the
  area at exactly its value before the edit. Two ways it fails. The second zone (200
  square metres) is being edited and has been dragged to 250, its area field still 200;
  \<open>editZone\<close> again, a drag to 310 and \<open>cancelZoneEdit\<close> give the area 250. And with a
  widget whose GeoJSON form keeps six decimals, a zone of 200.0000004 square metres
  comes back from \<open>editZone\<close>, a drag and \<open>cancelZoneEdit\<close> with 200.
\<close>

theorem cancelZoneEdit_area_counterexample:
  "area (zoneObj (setLatLngs 2 250 (editZone demoLeaflet 2 demoTwoZones)) 2) = Num 200
   \<and> area (zoneObj
        (cancelZoneEdit demoLeaflet
          (setLatLngs 2 310
            (editZone demoLeaflet 2
              (setLatLngs 2 250 (editZone demoLeaflet 2 demoTwoZones))))) 2) = Num 250
   \<and> area (zoneObj (createZone sixDecimalLeaflet 1 Polygon (newApp fineLayers)) 1)
       = Num (2000000004 / 10000000)
   \<and> area (zoneObj
        (cancelZoneEdit sixDecimalLeaflet
          (setLatLngs 1 250
            (editZone sixDecimalLeaflet 1
              (createZone sixDecimalLeaflet 1 Polygon (newApp fineLayers))))) 1) = Num 200"
  by (simp add: demoTwoZones_def state_defs demo_defs edit_defs Let_def sixDecimalLeaflet_def
      fineLayers_def)

text \<open>
  C6, amended. Take a zone \<open>r\<close> of the store that \<open>editZone\<close> finds by its identifier.
  After \<open>editZone\<close>, any moves \<open>gs\<close> of its layer's coordinates and \<open>cancelZoneEdit\<close>,
  the layer has the coordinates \<open>g\<close> built back from the GeoJSON form taken by
  \<open>editZone\<close>, the area of \<open>r\<close> is \<open>calculateArea\<close> of the layer with \<open>g\<close>, nothing else
  of the zones, the layers, the list of zones and the selection has changed, and no
  session is left. When the GeoJSON form gives the coordinates back unchanged the layers
  are what they were; when in addition the area of \<open>r\<close> was up to date with its layer,
  the zones are what they were, and so is the area of \<open>r\<close>.
\<close>

theorem cancelZoneEdit_restores:
  assumes found: "find (\<lambda>r. zid (zoneObj s r) = i) (drawingZones s) = Some r"
  shows "(let l = layer (zoneObj s r);
              g = geoJSONLatLngs lf (toGeoJSON lf (latLngs (layerObj s l)));
              s' = cancelZoneEdit lf (fold (setLatLngs l) gs (editZone lf i s)) in
            layerObj s' = (layerObj s)(l := (layerObj s l)\<lparr>latLngs := g\<rparr>)
          \<and> zoneObj s' =
              (zoneObj s)(r := (zoneObj s r)
                 \<lparr>area := calculateArea lf ((layerObj s l)\<lparr>latLngs := g\<rparr>)\<rparr>)
          \<and> drawingZones s' = drawingZones s
          \<and> selectedZone s' = selectedZone s
          \<and> originalGeometry s' = None
          \<and> currentEditingZone s' = None
          \<and> currentEditHandler s' = None
          \<and> (g = latLngs (layerObj s l) \<longrightarrow> layerObj s' = layerObj s)
          \<and> (g = latLngs (layerObj s l) \<and> area (zoneObj s r) = calculateArea lf (layerObj s l)
               \<longrightarrow> zoneObj s' = zoneObj s \<and> area (zoneObj s' r) = area (zoneObj s r)))"
proof -
  let ?l = "layer (zoneObj s r)"
  have lay: "(layerObj s ?l)\<lparr>latLngs := latLngs (layerObj s ?l)\<rparr> = layerObj s ?l"
    by simp
  have zone: "(zoneObj s r)\<lparr>area := area (zoneObj s r)\<rparr> = zoneObj s r"
    by simp
  have upd: "area (zoneObj s r) = a \<Longrightarrow> (zoneObj s)(r := (zoneObj s r)\<lparr>area := a\<rparr>) = zoneObj s"
    for a by (auto simp: fun_eq_iff)
  show ?thesis
    using found
    by (auto simp: fold_setLatLngs editZone_def cancelZoneEdit_def hideEditActions_def
        setLatLngs_def Let_def lay zone upd fun_upd_idem)
qed

theorem cancelZoneEdit_restores_witness:
  "latLngs (layerObj (fold (setLatLngs 2) [250, 310] (editZone demoLeaflet 2 demoTwoZones)) 2)
     = 310
   \<and> layerObj (cancelZoneEdit demoLeaflet
        (fold (setLatLngs 2) [250, 310] (editZone demoLeaflet 2 demoTwoZones))) 2
       = layerObj demoTwoZones 2
   \<and> area (zoneObj (cancelZoneEdit demoLeaflet
        (fold (setLatLngs 2) [250, 310] (editZone demoLeaflet 2 demoTwoZones))) 2) = Num 200
   \<and> layerObj (cancelZoneEdit sixDecimalLeaflet
        (fold (setLatLngs 1) [250]
          (editZone sixDecimalLeaflet 1
            (createZone sixDecimalLeaflet 1 Polygon (newApp fineLayers))))) 1
       = \<lparr>kind = Polygon, latLngs = 200\<rparr>"
proof -
  let ?t = "createZone sixDecimalLeaflet 1 Polygon (newApp fineLayers)"
  have ft: "find (\<lambda>r. zid (zoneObj ?t r) = 1) (drawingZones ?t) = Some 1"
    by (simp add: state_defs Let_def)
  have lt: "layer (zoneObj ?t 1) = 1" "layerObj ?t 1 = \<lparr>kind = Polygon, latLngs = 2000000004 / 10000000\<rparr>"
    "geoJSONLatLngs sixDecimalLeaflet (toGeoJSON sixDecimalLeaflet (2000000004 / 10000000)) = 200"
    by (simp_all add: state_defs Let_def fineLayers_def sixDecimalLeaflet_def)
  have six: "layerObj (cancelZoneEdit sixDecimalLeaflet
        (fold (setLatLngs 1) [250] (editZone sixDecimalLeaflet 1 ?t))) 1
       = \<lparr>kind = Polygon, latLngs = 200\<rparr>"
    using cancelZoneEdit_restores [OF ft, of sixDecimalLeaflet "[250]"] lt
    by (simp add: Let_def)
  have f: "find (\<lambda>r. zid (zoneObj demoTwoZones r) = 2) (drawingZones demoTwoZones) = Some 2"
    by (simp add: demoTwoZones_def state_defs demo_defs Let_def)
  have l: "layer (zoneObj demoTwoZones 2) = 2" "area (zoneObj demoTwoZones 2) = Num 200"
    by (simp_all add: demoTwoZones_def state_defs demo_defs Let_def)
  have r: "geoJSONLatLngs demoLeaflet
      (toGeoJSON demoLeaflet (latLngs (layerObj demoTwoZones 2)))
      = latLngs (layerObj demoTwoZones 2)"
    by (simp add: demoLeaflet_def)
  have a: "area (zoneObj demoTwoZones 2) = calculateArea demoLeaflet (layerObj demoTwoZones 2)"
    by (simp_all add: demoTwoZones_def state_defs demo_defs Let_def)
  have m: "latLngs (layerObj (fold (setLatLngs 2) [250, 310]
      (editZone demoLeaflet 2 demoTwoZones)) 2) = 310"
    by (simp add: setLatLngs_def)
  show ?thesis
    using cancelZoneEdit_restores [OF f, of demoLeaflet "[250, 310]"] l r a m six
    by (simp add: Let_def)
qed

subsection \<open>The selection\<close>

lemma findIndex_None: "findIndex P xs = None \<longleftrightarrow> (\<forall>x \<in> set xs. \<not> P x)"
  by (induction xs) (auto split: option.splits)

text \<open>With distinct keys, \<open>splice\<close> at the index \<open>findIndex\<close> gives is a filter.\<close>

lemma findIndex_splice:
  "distinct (map f xs) \<Longrightarrow> findIndex (\<lambda>x. f x = v) xs = Some k \<Longrightarrow>
     take k xs @ drop (Suc k) xs = filter (\<lambda>x. f x \<noteq> v) xs"
proof (induction xs arbitrary: k)
  case Nil
  then show ?case by simp
next
  case (Cons x xs)
  show ?case
  proof (cases "f x = v")
    case True
    with Cons.prems have "k = 0" and "\<forall>y \<in> set xs. f y \<noteq> v"
      by (auto simp: image_iff)
    with True show ?thesis
      by simp
  next
    case False
    with Cons.prems obtain j where "findIndex (\<lambda>x. f x = v) xs = Some j" and "k = Suc j"
      by (auto split: option.splits)
    with Cons False show ?thesis
      by simp
  qed
qed

lemma filter_Cons_head: "filter P xs = x # ys \<Longrightarrow> x \<in> set xs \<and> P x"
proof -
  assume "filter P xs = x # ys"
  then have "x \<in> set (filter P xs)"
    by simp
  then show ?thesis
    by simp
qed

lemma selectionInvariant_newApp: "selectionInvariant (newApp ls)"
  by (simp add: selectionInvariant_def newApp_def)

lemma selectionInvariant_createZone:
  assumes "selectionInvariant s"
  shows "selectionInvariant (createZone lf l ty s)"
proof -
  have old: "\<forall>r \<in> set (drawingZones s). r \<le> zoneCounter s \<and> zid (zoneObj s r) \<le> zoneCounter s"
    and dist: "distinct (map (\<lambda>r. zid (zoneObj s r)) (drawingZones s))"
    using assms by (simp_all add: selectionInvariant_def list_all_iff)
  have same: "map (\<lambda>r. zid (if r = Suc (zoneCounter s) then z else zoneObj s r)) (drawingZones s)
      = map (\<lambda>r. zid (zoneObj s r)) (drawingZones s)" for z
    using old by (intro map_cong) auto
  show ?thesis
    using old dist
    by (auto simp: selectionInvariant_def createZone_def onDrawCreated_def autoSelect_def
        Let_def list_all_iff same)
qed

text \<open>\<open>deleteZone\<close> for an identifier no zone of the store has changes nothing.\<close>

lemma deleteZone_unknown:
  "findIndex (\<lambda>r. zid (zoneObj s r) = i) (drawingZones s) = None \<Longrightarrow> deleteZone i s = s"
  by (simp add: deleteZone_def)

lemma deleteZone_drawingZones:
  assumes "distinct (map (\<lambda>r. zid (zoneObj s r)) (drawingZones s))"
  shows "drawingZones (deleteZone i s) = filter (\<lambda>r. zid (zoneObj s r) \<noteq> i) (drawingZones s)"
proof (cases "findIndex (\<lambda>r. zid (zoneObj s r) = i) (drawingZones s)")
  case None
  then have "filter (\<lambda>r. zid (zoneObj s r) \<noteq> i) (drawingZones s) = drawingZones s"
    by (simp add: findIndex_None)
  with None show ?thesis
    by (simp add: deleteZone_def)
next
  case (Some k)
  then show ?thesis
    using findIndex_splice [OF assms Some]
    by (simp add: deleteZone_def selectZone_def Let_def split: option.splits)
qed

lemma deleteZone_frame:
  "zoneObj (deleteZone i s) = zoneObj s" "zoneCounter (deleteZone i s) = zoneCounter s"
  by (simp_all add: deleteZone_def selectZone_def Let_def split: option.splits)

text \<open>
  The selection after \<open>deleteZone\<close> of a zone of the store: the old selection when it
  was another zone, otherwise the first zone left, or none.
\<close>

lemma deleteZone_selectedZone:
  assumes "distinct (map (\<lambda>r. zid (zoneObj s r)) (drawingZones s))"
    and "findIndex (\<lambda>r. zid (zoneObj s r) = i) (drawingZones s) \<noteq> None"
  shows "selectedZone (deleteZone i s) =
     (case (case selectedZone s of
              None \<Rightarrow> None
            | Some r \<Rightarrow> if zid (zoneObj s r) = i then None else Some r) of
        Some r \<Rightarrow> Some r
      | None \<Rightarrow>
          (case filter (\<lambda>r. zid (zoneObj s r) \<noteq> i) (drawingZones s) of
             [] \<Rightarrow> None
           | x # xs \<Rightarrow> Some x))"
proof -
  obtain k where k: "findIndex (\<lambda>r. zid (zoneObj s r) = i) (drawingZones s) = Some k"
    using assms(2) by auto
  show ?thesis
    using findIndex_splice [OF assms(1) k]
    by (auto simp: deleteZone_def selectZone_def Let_def k split: option.splits list.splits)
qed

lemma selectionInvariant_deleteZone:
  assumes "selectionInvariant s"
  shows "selectionInvariant (deleteZone i s)"
proof (cases "findIndex (\<lambda>r. zid (zoneObj s r) = i) (drawingZones s)")
  case None
  then show ?thesis
    using assms by (simp add: deleteZone_unknown)
next
  case (Some k)
  have dist: "distinct (map (\<lambda>r. zid (zoneObj s r)) (drawingZones s))"
    using assms by (simp add: selectionInvariant_def)
  have sel: "selectedZone (deleteZone i s) =
     (case (case selectedZone s of
              None \<Rightarrow> None
            | Some r \<Rightarrow> if zid (zoneObj s r) = i then None else Some r) of
        Some r \<Rightarrow> Some r
      | None \<Rightarrow>
          (case filter (\<lambda>r. zid (zoneObj s r) \<noteq> i) (drawingZones s) of
             [] \<Rightarrow> None
           | x # xs \<Rightarrow> Some x))"
    using deleteZone_selectedZone [OF dist] Some by simp
  show ?thesis
    using assms
    unfolding selectionInvariant_def deleteZone_drawingZones [OF dist] deleteZone_frame sel
    by (auto simp: distinct_map_filter list_all_iff split: option.splits list.splits
        dest: filter_Cons_head)
qed

text \<open>
  After any sequence of zones drawn and \<open>deleteZone\<close> calls on a new page, the selection
  is a zone of the store, or none when the store is empty.
\<close>

lemma selectionInvariant_events:
  "selectionInvariant (fold (zoneEvent lf) evs (newApp ls))"
proof -
  have "selectionInvariant s \<Longrightarrow> selectionInvariant (fold (zoneEvent lf) evs s)" for s
  proof (induction evs arbitrary: s)
    case Nil
    then show ?case by simp
  next
    case (Cons ev evs)
    then show ?case
      by (cases ev) (simp_all add: selectionInvariant_createZone selectionInvariant_deleteZone)
  qed
  then show ?thesis
    by (simp add: selectionInvariant_newApp)
qed

text \<open>
  C3. After any creations and deletions the selected zone is meant to be a zone of the
  store, and after the selected zone is deleted the selection is meant to be the first
  zone left, or none. \<open>deleteZone\<close> does this (\<open>selectionInvariant_events\<close>,
  \<open>deleteZone_selectedZone\<close>). \<open>onDrawDeleted\<close>, the deletion by the
  drawing toolbar, takes the zone out of the store and leaves \<open>selectedZone\<close> pointing
  at it: with one zone the store is empty and the zone is still selected; with two
  zones, deleting the selected second one leaves it selected instead of the first.
\<close>

theorem onDrawDeleted_keeps_selection:
  "drawingZones (onDrawDeleted [1] (createZone demoLeaflet 1 Polygon (newApp demoLayers))) = []
   \<and> selectedZone (onDrawDeleted [1] (createZone demoLeaflet 1 Polygon (newApp demoLayers)))
       = Some 1
   \<and> selectedZone (deleteZone 1 (createZone demoLeaflet 1 Polygon (newApp demoLayers))) = None
   \<and> selectedZone demoTwoZones = Some 2
   \<and> drawingZones (onDrawDeleted [2] demoTwoZones) = [1]
   \<and> selectedZone (onDrawDeleted [2] demoTwoZones) = Some 2
   \<and> selectedZone (deleteZone 2 demoTwoZones) = Some 1"
  by (simp add: demoTwoZones_def state_defs demo_defs edit_defs Let_def)

end
